theory Spec2Isabelle
  imports Complex_Main "HOL-Library.Sublist"
begin

section \<open>JSON values as the Python code sees them\<close>

text \<open>
  Everything the agent handles (request bodies, skill parameters, upstream responses, task
  objects) is a value produced by \<^verbatim>\<open>json.loads\<close> or built from dict and list literals.
  \<open>JInt\<close> is Python's unbounded \<^verbatim>\<open>int\<close>; \<open>JFloat\<close> is a finite \<^verbatim>\<open>float\<close>, held by its exact
  rational value (Python compares numbers exactly, so ordering and the test against zero
  are those of the rationals); \<open>JNonFinite\<close> is one of the three other floats, which
  \<^verbatim>\<open>json.loads\<close> gives for \<^verbatim>\<open>Infinity\<close> or \<^verbatim>\<open>1e999\<close>, \<^verbatim>\<open>-Infinity\<close> and \<^verbatim>\<open>NaN\<close>; a dict is an
  association list in insertion order, read with \<open>map_of\<close>. A \<open>string\<close> lists the
  characters of a Python \<^verbatim>\<open>str\<close>; a \<^verbatim>\<open>str\<close> that holds a lone surrogate, which no
  UTF-8 text encodes, is not among these values.
\<close>

datatype nonfinite = PosInfinity | NegInfinity | NotANumber

datatype json =
    JNull
  | JBool bool
  | JInt int
  | JFloat rat
  | JNonFinite nonfinite
  | JStr string
  | JArr "json list"
  | JObj "(string \<times> json) list"

type_synonym dict = "(string \<times> json) list"

text \<open>The exceptions the code can meet; \<open>HTTPStatusError\<close> carries \<^verbatim>\<open>e.response.status_code\<close>.\<close>

datatype exn =
    AttributeError
  | TypeError
  | KeyError
  | IndexError
  | ValueError
  | JSONDecodeError
  | ValidationError
  | TimeoutException
  | ConnectError
  | HTTPStatusError int

text \<open>Sequencing: a raised exception (\<open>Inl\<close>) skips the rest of the block.\<close>

definition and_then :: "exn + 'a \<Rightarrow> ('a \<Rightarrow> exn + 'b) \<Rightarrow> exn + 'b" where
  "and_then r f = (case r of Inl e \<Rightarrow> Inl e | Inr v \<Rightarrow> f v)"

text \<open>Truth value testing (\<^verbatim>\<open>if x:\<close>, \<^verbatim>\<open>not x\<close>, \<^verbatim>\<open>x or y\<close>, \<^verbatim>\<open>x and y\<close>).\<close>

fun truthy :: "json \<Rightarrow> bool" where
  "truthy JNull = False"
| "truthy (JBool b) = b"
| "truthy (JInt i) = (i \<noteq> 0)"
| "truthy (JFloat r) = (r \<noteq> 0)"
| "truthy (JNonFinite f) = True"
| "truthy (JStr s) = (s \<noteq> [])"
| "truthy (JArr xs) = (xs \<noteq> [])"
| "truthy (JObj kvs) = (kvs \<noteq> [])"

definition py_or :: "json \<Rightarrow> json \<Rightarrow> json" where
  "py_or a b = (if truthy a then a else b)"

text \<open>\<^verbatim>\<open>d.get(k, default)\<close> on a dict, and on any value (only a dict has \<^verbatim>\<open>get\<close>).\<close>

definition dict_get :: "dict \<Rightarrow> string \<Rightarrow> json \<Rightarrow> json" where
  "dict_get d k dflt = (case map_of d k of None \<Rightarrow> dflt | Some v \<Rightarrow> v)"

fun py_get :: "json \<Rightarrow> string \<Rightarrow> json \<Rightarrow> exn + json" where
  "py_get (JObj d) k dflt = Inr (dict_get d k dflt)"
| "py_get _ k dflt = Inl AttributeError"

text \<open>\<^verbatim>\<open>isinstance(x, dict)\<close> and the dict itself, for the statements below.\<close>

fun is_dict :: "json \<Rightarrow> bool" where
  "is_dict (JObj d) = True"
| "is_dict _ = False"

fun dict_of :: "json \<Rightarrow> dict" where
  "dict_of (JObj d) = d"
| "dict_of _ = []"

text \<open>\<^verbatim>\<open>d[k] = v\<close> on a dict: an existing key keeps its place, a new one goes last.\<close>

fun dict_set :: "dict \<Rightarrow> string \<Rightarrow> json \<Rightarrow> dict" where
  "dict_set [] k v = [(k, v)]"
| "dict_set ((k', v') # d) k v = (if k' = k then (k, v) # d else (k', v') # dict_set d k v)"

text \<open>\<^verbatim>\<open>x[k]\<close> with a string key, and \<^verbatim>\<open>x[k] = v\<close>.\<close>

fun getitem :: "json \<Rightarrow> string \<Rightarrow> exn + json" where
  "getitem (JObj d) k = (case map_of d k of None \<Rightarrow> Inl KeyError | Some v \<Rightarrow> Inr v)"
| "getitem _ k = Inl TypeError"

fun setitem :: "json \<Rightarrow> string \<Rightarrow> json \<Rightarrow> exn + json" where
  "setitem (JObj d) k v = Inr (JObj (dict_set d k v))"
| "setitem _ k v = Inl TypeError"

text \<open>\<^verbatim>\<open>len(x)\<close>, \<^verbatim>\<open>x[:n]\<close>, \<^verbatim>\<open>x[0]\<close> and \<^verbatim>\<open>for y in x\<close>. A dict cannot be sliced, and its
  keys are strings, so \<^verbatim>\<open>x[0]\<close> finds none; iterating a string gives its characters,
  iterating a dict its keys.\<close>

fun py_len :: "json \<Rightarrow> exn + nat" where
  "py_len (JStr s) = Inr (length s)"
| "py_len (JArr xs) = Inr (length xs)"
| "py_len (JObj d) = Inr (length d)"
| "py_len _ = Inl TypeError"

fun py_slice :: "nat \<Rightarrow> json \<Rightarrow> exn + json" where
  "py_slice n (JArr xs) = Inr (JArr (take n xs))"
| "py_slice n (JStr s) = Inr (JStr (take n s))"
| "py_slice n _ = Inl TypeError"

fun subscript0 :: "json \<Rightarrow> exn + json" where
  "subscript0 (JArr xs) = (case xs of [] \<Rightarrow> Inl IndexError | x # _ \<Rightarrow> Inr x)"
| "subscript0 (JStr s) = (case s of [] \<Rightarrow> Inl IndexError | c # _ \<Rightarrow> Inr (JStr [c]))"
| "subscript0 (JObj d) = Inl KeyError"
| "subscript0 _ = Inl TypeError"

fun py_iter :: "json \<Rightarrow> exn + json list" where
  "py_iter (JArr xs) = Inr xs"
| "py_iter (JStr s) = Inr (map (\<lambda>c. JStr [c]) s)"
| "py_iter (JObj d) = Inr (map (\<lambda>kv. JStr (fst kv)) d)"
| "py_iter _ = Inl TypeError"

text \<open>
  \<^verbatim>\<open>json.dumps(x, allow_nan=...)\<close>, for what it raises: with \<^verbatim>\<open>allow_nan=False\<close> a
  non-finite float anywhere in the value raises \<^verbatim>\<open>ValueError\<close>; with the default
  \<^verbatim>\<open>allow_nan=True\<close> (the debug logs) every value of this type is written.
\<close>

fun has_nonfinite :: "json \<Rightarrow> bool" where
  "has_nonfinite (JNonFinite f) = True"
| "has_nonfinite (JArr xs) = list_ex has_nonfinite xs"
| "has_nonfinite (JObj d) = list_ex has_nonfinite (map snd d)"
| "has_nonfinite _ = False"

definition json_dumps :: "bool \<Rightarrow> json \<Rightarrow> exn + unit" where
  "json_dumps allow_nan x = (if \<not> allow_nan \<and> has_nonfinite x then Inl ValueError else Inr ())"

section \<open>The response normalizer: one hotel record per upstream property\<close>

text \<open>
  Line 265 of \<^verbatim>\<open>main.py\<close>:
  \<^verbatim>\<open>[img.get("thumbnail") or img.get("original_image")
     for img in prop.get("images", [])[:6]
     if img.get("thumbnail") or img.get("original_image")]\<close>
\<close>

definition image_url :: "dict \<Rightarrow> json" where
  "image_url img = py_or (dict_get img ''thumbnail'' JNull) (dict_get img ''original_image'' JNull)"

fun image_urls :: "json list \<Rightarrow> exn + json list" where
  "image_urls [] = Inr []"
| "image_urls (img # rest) =
     (case img of
        JObj i \<Rightarrow>
          and_then (image_urls rest)
            (\<lambda>us. Inr (if truthy (image_url i) then image_url i # us else us))
      | _ \<Rightarrow> Inl AttributeError)"

definition hotel_images :: "dict \<Rightarrow> exn + json" where
  "hotel_images p =
     and_then (py_slice 6 (dict_get p ''images'' (JArr []))) (\<lambda>s.
     and_then (py_iter s) (\<lambda>imgs.
     and_then (image_urls imgs) (\<lambda>us. Inr (JArr us))))"

text \<open>
  Lines 239-245, the debug log of the raw image list: \<^verbatim>\<open>len(raw_images)\<close> and, when the
  list is non-empty, \<^verbatim>\<open>json.dumps(raw_images[0])\<close>. It produces nothing but can raise.
\<close>

definition log_raw_images :: "dict \<Rightarrow> exn + unit" where
  "log_raw_images p =
     (let raw_images = dict_get p ''images'' (JArr []) in
      and_then (py_len raw_images) (\<lambda>_.
        if truthy raw_images then and_then (subscript0 raw_images) (json_dumps True)
        else Inr ()))"

text \<open>Lines 247-268, the dict literal; its entries are evaluated in order.\<close>

definition build_hotel :: "json \<Rightarrow> json \<Rightarrow> json \<Rightarrow> dict \<Rightarrow> exn + dict" where
  "build_hotel currency check_in check_out p =
     and_then (py_get (dict_get p ''gps_coordinates'' (JObj [])) ''latitude'' JNull) (\<lambda>latitude.
     and_then (py_get (dict_get p ''gps_coordinates'' (JObj [])) ''longitude'' JNull) (\<lambda>longitude.
     and_then (hotel_images p) (\<lambda>images.
       Inr [(''name'', dict_get p ''name'' (JStr ''Unknown'')),
            (''description'', dict_get p ''description'' (JStr '''')),
            (''propertyToken'', dict_get p ''property_token'' (JStr '''')),
            (''rating'', dict_get p ''overall_rating'' JNull),
            (''reviewCount'', dict_get p ''reviews'' JNull),
            (''stars'', dict_get p ''hotel_class'' JNull),
            (''price'', JNull),
            (''pricePerNight'', JNull),
            (''totalPrice'', JNull),
            (''currency'', currency),
            (''location'', JObj
               [(''address'', dict_get p ''address'' (JStr '''')),
                (''neighborhood'', dict_get p ''neighborhood'' (JStr '''')),
                (''latitude'', latitude),
                (''longitude'', longitude)]),
            (''amenities'', dict_get p ''amenities'' (JArr [])),
            (''images'', images),
            (''checkIn'', check_in),
            (''checkOut'', check_out)])))"

text \<open>Lines 273-281, pricing.\<close>

definition extract_pricing :: "dict \<Rightarrow> dict \<Rightarrow> exn + dict" where
  "extract_pricing p hotel =
     (let rate_per_night = dict_get p ''rate_per_night'' JNull;
          total_rate = dict_get p ''total_rate'' JNull in
      and_then
        (if truthy rate_per_night then
           and_then (py_get rate_per_night ''extracted_lowest'' JNull) (\<lambda>n.
           and_then (py_get rate_per_night ''lowest'' (JStr '''')) (\<lambda>l.
             Inr (dict_set (dict_set hotel ''pricePerNight'' n) ''price'' l)))
         else Inr hotel)
        (\<lambda>hotel.
           if truthy total_rate then
             and_then (py_get total_rate ''extracted_lowest'' JNull) (\<lambda>t.
               Inr (dict_set hotel ''totalPrice'' t))
           else Inr hotel))"

text \<open>
  Python's \<^verbatim>\<open><\<close>. Numbers (\<^verbatim>\<open>bool\<close> is a subclass of \<^verbatim>\<open>int\<close>) compare by value, with
  \<^verbatim>\<open>-inf\<close> below and \<^verbatim>\<open>inf\<close> above every finite number and \<^verbatim>\<open>nan\<close> below nothing and
  above nothing; strings compare lexicographically by character code; every other mix
  of JSON types raises \<^verbatim>\<open>TypeError\<close>, but for two lists, whose element-wise comparison
  is a parameter of the model (\<open>lt_list\<close>). \<open>num_of\<close> is the value of a finite number.
\<close>

fun num_of :: "json \<Rightarrow> rat option" where
  "num_of (JBool b) = Some (if b then 1 else 0)"
| "num_of (JInt i) = Some (of_int i)"
| "num_of (JFloat r) = Some r"
| "num_of _ = None"

datatype number = Finite rat | NonFinite nonfinite

fun number_of :: "json \<Rightarrow> number option" where
  "number_of (JNonFinite f) = Some (NonFinite f)"
| "number_of x = map_option Finite (num_of x)"

fun number_lt :: "number \<Rightarrow> number \<Rightarrow> bool" where
  "number_lt (Finite x) (Finite y) = (x < y)"
| "number_lt (NonFinite NotANumber) y = False"
| "number_lt x (NonFinite NotANumber) = False"
| "number_lt x (NonFinite NegInfinity) = False"
| "number_lt (NonFinite NegInfinity) y = True"
| "number_lt (NonFinite PosInfinity) y = False"
| "number_lt x (NonFinite PosInfinity) = True"

fun str_lt :: "string \<Rightarrow> string \<Rightarrow> bool" where
  "str_lt [] t = (t \<noteq> [])"
| "str_lt (c # s) [] = False"
| "str_lt (c # s) (d # t) =
     (if (of_char c :: nat) < of_char d then True
      else if (of_char d :: nat) < of_char c then False
      else str_lt s t)"

definition py_lt :: "(json list \<Rightarrow> json list \<Rightarrow> exn + bool) \<Rightarrow> json \<Rightarrow> json \<Rightarrow> exn + bool" where
  "py_lt lt_list a b =
     (case (number_of a, number_of b) of
        (Some x, Some y) \<Rightarrow> Inr (number_lt x y)
      | _ \<Rightarrow>
        (case (a, b) of
           (JStr s, JStr t) \<Rightarrow> Inr (str_lt s t)
         | (JArr xs, JArr ys) \<Rightarrow> lt_list xs ys
         | _ \<Rightarrow> Inl TypeError))"

text \<open>
  Lines 283-287, the rating filter: \<open>Inr True\<close> when the record is skipped
  (\<^verbatim>\<open>continue\<close>).
\<close>

definition rating_filter :: "(json list \<Rightarrow> json list \<Rightarrow> exn + bool) \<Rightarrow> json \<Rightarrow> dict \<Rightarrow> exn + bool" where
  "rating_filter lt_list min_rating hotel =
     and_then (getitem (JObj hotel) ''rating'') (\<lambda>rating.
       if truthy min_rating \<and> truthy rating then py_lt lt_list rating min_rating
       else Inr False)"

text \<open>
  One pass of the loop body (lines 239-289) on one property: \<open>Inr None\<close> when the
  record is skipped, \<open>Inr (Some hotel)\<close> when it is appended.
\<close>

definition process_property ::
  "(json list \<Rightarrow> json list \<Rightarrow> exn + bool) \<Rightarrow> json \<Rightarrow> json \<Rightarrow> json \<Rightarrow> json \<Rightarrow> json \<Rightarrow> exn + json option" where
  "process_property lt_list currency check_in check_out min_rating prop =
     (case prop of
        JObj p \<Rightarrow>
          and_then (log_raw_images p) (\<lambda>_.
          and_then (build_hotel currency check_in check_out p) (\<lambda>hotel.
          and_then (extract_pricing p hotel) (\<lambda>hotel.
          and_then (rating_filter lt_list min_rating hotel) (\<lambda>skip.
            Inr (if skip then None else Some (JObj hotel))))))
      | _ \<Rightarrow> Inl AttributeError)"

text \<open>The loop of lines 237-289 over the properties already cut to ten.\<close>

fun transform ::
  "(json list \<Rightarrow> json list \<Rightarrow> exn + bool) \<Rightarrow> json \<Rightarrow> json \<Rightarrow> json \<Rightarrow> json \<Rightarrow> json list \<Rightarrow> json list \<Rightarrow> exn + json list" where
  "transform lt_list currency check_in check_out min_rating hotels [] = Inr hotels"
| "transform lt_list currency check_in check_out min_rating hotels (prop # rest) =
     and_then (process_property lt_list currency check_in check_out min_rating prop) (\<lambda>r.
       transform lt_list currency check_in check_out min_rating
         (case r of None \<Rightarrow> hotels | Some hotel \<Rightarrow> hotels @ [hotel]) rest)"

section \<open>The environment of a request\<close>

text \<open>
  What the code reads from outside itself, fixed for the time of one request: the
  configured credential, the two default dates computed from the clock (tomorrow and
  the day two days after it, as \<^verbatim>\<open>YYYY-MM-DD\<close>), the upstream service as a function of
  the query parameters, the next value of \<^verbatim>\<open>uuid.uuid4()\<close>, and four pieces of the
  Python runtime and the HTTP library: \<^verbatim>\<open>str(e)\<close> of an exception, \<^verbatim>\<open>str(x)\<close> of a float,
  list or dict, \<^verbatim>\<open><\<close> between two lists, and the text the HTTP library puts before and
  after the status code in the message of an \<^verbatim>\<open>HTTPStatusError\<close> (the message names the
  status code, as in \<^verbatim>\<open>Client error '404 Not Found' for url ...\<close>).
\<close>

datatype outcome =
    Response int "json option"
  | Timeout
  | ConnectionFailed

record env =
  SERPAPI_API_KEY :: string
  tomorrow :: string
  in_three_days :: string
  upstream :: "dict \<Rightarrow> outcome"
  uuid4 :: string
  exc_str :: "exn \<Rightarrow> string"
  repr :: "json \<Rightarrow> string"
  lt_list :: "json list \<Rightarrow> json list \<Rightarrow> exn + bool"
  http_error_text :: "int \<Rightarrow> string \<times> string"

text \<open>\<^verbatim>\<open>str(n)\<close> of an integer, and the conversion an f-string applies to a JSON value.\<close>

function str_nat :: "nat \<Rightarrow> string" where
  "str_nat n = (if n < 10 then [char_of (48 + n)] else str_nat (n div 10) @ [char_of (48 + n mod 10)])"
  by pat_completeness auto
termination
  by (relation "measure id") auto

definition str_int :: "int \<Rightarrow> string" where
  "str_int i = (if i < 0 then CHR ''-'' # str_nat (nat (- i)) else str_nat (nat i))"

text \<open>\<^verbatim>\<open>str(e)\<close> of a caught exception.\<close>

definition str_exc :: "env \<Rightarrow> exn \<Rightarrow> string" where
  "str_exc env e =
     (case e of
        HTTPStatusError status \<Rightarrow>
          fst (http_error_text env status) @ str_int status @ snd (http_error_text env status)
      | _ \<Rightarrow> exc_str env e)"

fun py_str :: "(json \<Rightarrow> string) \<Rightarrow> json \<Rightarrow> string" where
  "py_str rp (JStr s) = s"
| "py_str rp (JInt i) = str_int i"
| "py_str rp JNull = ''None''"
| "py_str rp (JBool b) = (if b then ''True'' else ''False'')"
| "py_str rp v = rp v"

section \<open>The upstream client\<close>

text \<open>
  Lines 220-225 (and 375-380): \<^verbatim>\<open>client.get\<close>, \<^verbatim>\<open>raise_for_status\<close>, \<^verbatim>\<open>response.json()\<close>.
  A response outside 200..299 raises \<^verbatim>\<open>HTTPStatusError\<close>; a body that is not JSON
  (\<open>None\<close>) raises on decoding.
\<close>

definition fetch :: "env \<Rightarrow> dict \<Rightarrow> exn + json" where
  "fetch env q =
     (case upstream env q of
        Timeout \<Rightarrow> Inl TimeoutException
      | ConnectionFailed \<Rightarrow> Inl ConnectError
      | Response status body \<Rightarrow>
          if 200 \<le> status \<and> status \<le> 299 then
            (case body of None \<Rightarrow> Inl JSONDecodeError | Some data \<Rightarrow> Inr data)
          else Inl (HTTPStatusError status))"

text \<open>Lines 179-182: a missing or empty date is replaced by the default.\<close>

definition default_date :: "json \<Rightarrow> string \<Rightarrow> json" where
  "default_date d dflt = (if \<not> truthy d then JStr dflt else d)"

text \<open>Lines 205-212, the price filter added to the query parameters.\<close>

definition add_price_filter :: "(json \<Rightarrow> string) \<Rightarrow> json \<Rightarrow> json \<Rightarrow> dict \<Rightarrow> dict" where
  "add_price_filter rp min_price max_price serpapi_params =
     (if min_price \<noteq> JNull \<or> max_price \<noteq> JNull then
        if truthy min_price \<and> truthy max_price then
          dict_set serpapi_params ''price'' (JStr (py_str rp min_price @ '','' @ py_str rp max_price))
        else if truthy min_price then dict_set serpapi_params ''min_price'' min_price
        else if truthy max_price then dict_set serpapi_params ''max_price'' max_price
        else serpapi_params
      else serpapi_params)"

text \<open>Lines 169-212: the query parameters of a search, from the skill's parameters.\<close>

definition search_params :: "env \<Rightarrow> dict \<Rightarrow> dict" where
  "search_params env d =
     add_price_filter (repr env) (dict_get d ''minPrice'' JNull) (dict_get d ''maxPrice'' JNull)
       [(''engine'', JStr ''google_hotels''),
        (''q'', dict_get d ''destination'' (JStr '''')),
        (''check_in_date'', default_date (dict_get d ''checkInDate'' JNull) (tomorrow env)),
        (''check_out_date'', default_date (dict_get d ''checkOutDate'' JNull) (in_three_days env)),
        (''adults'', dict_get d ''adults'' (JInt 2)),
        (''currency'', dict_get d ''currency'' (JStr ''USD'')),
        (''api_key'', JStr (SERPAPI_API_KEY env)),
        (''hl'', JStr ''en''),
        (''gl'', JStr ''us'')]"

text \<open>
  Lines 220-289, the body of the \<^verbatim>\<open>try\<close>: fetch, \<^verbatim>\<open>data.keys()\<close>, the log of the search
  metadata, \<^verbatim>\<open>len(properties)\<close>, \<^verbatim>\<open>properties[:10]\<close> and the loop. It gives the list
  \<^verbatim>\<open>hotels\<close>.
\<close>

definition search_body :: "env \<Rightarrow> dict \<Rightarrow> dict \<Rightarrow> exn + json list" where
  "search_body env d serpapi_params =
     and_then (fetch env serpapi_params) (\<lambda>data.
       case data of
         JObj dd \<Rightarrow>
           (let properties = dict_get dd ''properties'' (JArr []) in
            and_then (case map_of dd ''search_metadata'' of
                        None \<Rightarrow> Inr () | Some m \<Rightarrow> json_dumps True m) (\<lambda>_.
            and_then (py_len properties) (\<lambda>_.
            and_then (py_slice 10 properties) (\<lambda>s.
            and_then (py_iter s) (\<lambda>ps.
              transform (lt_list env)
                (dict_get d ''currency'' (JStr ''USD''))
                (default_date (dict_get d ''checkInDate'' JNull) (tomorrow env))
                (default_date (dict_get d ''checkOutDate'' JNull) (in_three_days env))
                (dict_get d ''minRating'' JNull) [] ps)))))
       | _ \<Rightarrow> Inl AttributeError)"

text \<open>
  \<^verbatim>\<open>search_hotels_live\<close> (lines 161-324). The result is the returned dict together with
  the list of query-parameter sets sent upstream (no entry: no outbound call); \<open>Inl\<close>
  is an exception that leaves the function. The two debug logs before the \<^verbatim>\<open>try\<close>
  (lines 167 and 217) serialise the parameters and the masked query parameters.
\<close>

definition search_hotels_live :: "env \<Rightarrow> json \<Rightarrow> exn + (json \<times> dict list)" where
  "search_hotels_live env params =
     and_then (json_dumps True params) (\<lambda>_.
       case params of
         JObj d \<Rightarrow>
           if SERPAPI_API_KEY env = [] then
             Inr (JObj [(''success'', JBool False),
                        (''error'', JStr ''SerpAPI API key not configured. Please set SERPAPI_API_KEY environment variable.''),
                        (''hotels'', JArr [])], [])
           else
             and_then (json_dumps True
                 (JObj (dict_set (search_params env d) ''api_key'' (JStr ''***MASKED***'')))) (\<lambda>_.
               Inr (case search_body env d (search_params env d) of
                      Inr hotels \<Rightarrow>
                        JObj [(''success'', JBool True),
                              (''destination'', dict_get d ''destination'' (JStr '''')),
                              (''checkIn'', default_date (dict_get d ''checkInDate'' JNull) (tomorrow env)),
                              (''checkOut'', default_date (dict_get d ''checkOutDate'' JNull) (in_three_days env)),
                              (''hotelCount'', JInt (int (length hotels))),
                              (''hotels'', JArr hotels),
                              (''source'', JStr ''Google Hotels via SerpAPI'')]
                    | Inl (HTTPStatusError status) \<Rightarrow>
                        JObj [(''success'', JBool False),
                              (''error'', JStr (''SerpAPI request failed: '' @ str_int status)),
                              (''hotels'', JArr [])]
                    | Inl e \<Rightarrow>
                        JObj [(''success'', JBool False),
                              (''error'', JStr (''Failed to search hotels: '' @ str_exc env e)),
                              (''hotels'', JArr [])],
                    [search_params env d]))
       | _ \<Rightarrow> Inl AttributeError)"

text \<open>
  \<^verbatim>\<open>get_hotel_details\<close> (lines 327-403), with its debug logs: the parameters (line 333)
  and the masked query parameters (line 372) before the \<^verbatim>\<open>try\<close>, the response (line 383)
  inside it.
\<close>

definition details_params :: "env \<Rightarrow> dict \<Rightarrow> dict" where
  "details_params env d =
     [(''engine'', JStr ''google_hotels''),
      (''property_token'', dict_get d ''propertyToken'' (JStr '''')),
      (''check_in_date'', default_date (dict_get d ''checkInDate'' JNull) (tomorrow env)),
      (''check_out_date'', default_date (dict_get d ''checkOutDate'' JNull) (in_three_days env)),
      (''api_key'', JStr (SERPAPI_API_KEY env)),
      (''hl'', JStr ''en''),
      (''gl'', JStr ''us'')]"

definition get_hotel_details :: "env \<Rightarrow> json \<Rightarrow> exn + (json \<times> dict list)" where
  "get_hotel_details env params =
     and_then (json_dumps True params) (\<lambda>_.
       case params of
         JObj d \<Rightarrow>
           if \<not> truthy (dict_get d ''propertyToken'' (JStr '''')) then
             Inr (JObj [(''success'', JBool False),
                        (''error'', JStr ''Property token is required'')], [])
           else if SERPAPI_API_KEY env = [] then
             Inr (JObj [(''success'', JBool False),
                        (''error'', JStr ''SerpAPI API key not configured'')], [])
           else
             and_then (json_dumps True
                 (JObj (dict_set (details_params env d) ''api_key'' (JStr ''***MASKED***'')))) (\<lambda>_.
               Inr (case and_then (fetch env (details_params env d))
                           (\<lambda>data. case data of
                                      JObj dd \<Rightarrow> and_then (json_dumps True data) (\<lambda>_. Inr data)
                                    | _ \<Rightarrow> Inl AttributeError) of
                      Inr data \<Rightarrow>
                        JObj [(''success'', JBool True),
                              (''hotel'', data),
                              (''source'', JStr ''Google Hotels via SerpAPI'')]
                    | Inl e \<Rightarrow>
                        JObj [(''success'', JBool False),
                              (''error'', JStr (''Failed to get hotel details: '' @ str_exc env e))],
                    [details_params env d]))
       | _ \<Rightarrow> Inl AttributeError)"

text \<open>\<^verbatim>\<open>execute_skill\<close> (lines 406-420).\<close>

definition execute_skill :: "env \<Rightarrow> json \<Rightarrow> json \<Rightarrow> exn + (json \<times> dict list)" where
  "execute_skill env skill_id params =
     (if skill_id = JStr ''search-hotels-live'' then search_hotels_live env params
      else if skill_id = JStr ''get-hotel-details'' then get_hotel_details env params
      else Inr (JObj [(''success'', JBool False),
                      (''error'', JStr (''Unknown skill: '' @ py_str (repr env) skill_id))], []))"

section \<open>The protocol front-end\<close>

text \<open>
  A \<^verbatim>\<open>JSONResponse\<close> built without a status code has status 200. Its body is rendered
  when it is built, by \<^verbatim>\<open>json.dumps\<close> with \<^verbatim>\<open>allow_nan=False\<close>: a content that holds a
  non-finite float raises \<^verbatim>\<open>ValueError\<close> there. The two envelope builders are lines
  142-158.
\<close>

record response =
  status_code :: int
  content :: json

definition JSONResponse :: "json \<Rightarrow> exn + response" where
  "JSONResponse c = and_then (json_dumps False c) (\<lambda>_. Inr \<lparr>status_code = 200, content = c\<rparr>)"

definition create_json_rpc_response :: "json \<Rightarrow> json \<Rightarrow> json" where
  "create_json_rpc_response request_id result =
     JObj [(''jsonrpc'', JStr ''2.0''), (''id'', request_id), (''result'', result)]"

definition create_json_rpc_error :: "json \<Rightarrow> int \<Rightarrow> string \<Rightarrow> json \<Rightarrow> json" where
  "create_json_rpc_error request_id code message data =
     (let error = [(''code'', JInt code), (''message'', JStr message)];
          error = (if truthy data then dict_set error ''data'' data else error)
      in JObj [(''jsonrpc'', JStr ''2.0''), (''id'', request_id), (''error'', JObj error)])"

text \<open>
  The request model of lines 135-139 and its validation (line 440), fields being
  validated without coercion: the body must be a JSON object (\<^verbatim>\<open>**body\<close> raises
  \<^verbatim>\<open>TypeError\<close> otherwise) with an \<^verbatim>\<open>id\<close> of any value, a string \<^verbatim>\<open>method\<close>, a string
  \<^verbatim>\<open>jsonrpc\<close> when given, and \<^verbatim>\<open>params\<close> null or an object when given; other keys are
  ignored.
\<close>

record JsonRpcRequest =
  rpc_jsonrpc :: string
  rpc_id :: json
  rpc_method :: string
  rpc_params :: "dict option"

definition validate_params :: "json \<Rightarrow> exn + dict option" where
  "validate_params v =
     (case v of JNull \<Rightarrow> Inr None | JObj p \<Rightarrow> Inr (Some p) | _ \<Rightarrow> Inl ValidationError)"

definition validate_request :: "json \<Rightarrow> exn + JsonRpcRequest" where
  "validate_request body =
     (case body of
        JObj b \<Rightarrow>
          (case dict_get b ''jsonrpc'' (JStr ''2.0'') of
             JStr v \<Rightarrow>
               (case map_of b ''id'' of
                  None \<Rightarrow> Inl ValidationError
                | Some i \<Rightarrow>
                    (case map_of b ''method'' of
                       Some (JStr m) \<Rightarrow>
                         and_then (validate_params (dict_get b ''params'' JNull)) (\<lambda>ps.
                           Inr \<lparr>rpc_jsonrpc = v, rpc_id = i, rpc_method = m, rpc_params = ps\<rparr>)
                     | _ \<Rightarrow> Inl ValidationError))
           | _ \<Rightarrow> Inl ValidationError)
      | _ \<Rightarrow> Inl TypeError)"

text \<open>
  Lines 463-468: the skill parameters are looked for among the message parts.
  \<open>not_data\<close> holds of a part that is an object whose \<^verbatim>\<open>type\<close> is not \<^verbatim>\<open>"data"\<close>: the loop
  passes over it.
\<close>

fun not_data :: "json \<Rightarrow> bool" where
  "not_data (JObj d) = (dict_get d ''type'' JNull \<noteq> JStr ''data'')"
| "not_data _ = False"

fun first_data_part :: "json list \<Rightarrow> exn + json" where
  "first_data_part [] = Inr (JObj [])"
| "first_data_part (part # rest) =
     and_then (py_get part ''type'' JNull) (\<lambda>t.
       if t = JStr ''data'' then py_get part ''data'' (JObj [])
       else first_data_part rest)"

definition task_params_of :: "dict \<Rightarrow> exn + json" where
  "task_params_of params =
     and_then (py_get (dict_get params ''message'' (JObj [])) ''parts'' (JArr [])) (\<lambda>parts.
     and_then (py_iter parts) first_data_part)"

text \<open>
  Lines 457-477: extraction of the skill and its parameters, the log of the parameters
  (line 470), and the skill's run.
\<close>

definition run_skill :: "env \<Rightarrow> dict \<Rightarrow> exn + (json \<times> dict list)" where
  "run_skill env params =
     and_then (task_params_of params) (\<lambda>task_params.
     and_then (json_dumps True task_params) (\<lambda>_.
       execute_skill env (dict_get params ''skillId'' (JStr '''')) task_params))"

text \<open>
  Lines 480-494, the task object. Its state is a parameter, so that the task after
  line 518 can be written with it too; \<^verbatim>\<open>tasks/send\<close> builds it with \<^verbatim>\<open>"completed"\<close>.
\<close>

definition new_task :: "string \<Rightarrow> json \<Rightarrow> json \<Rightarrow> json" where
  "new_task task_id state result =
     JObj [(''id'', JStr task_id),
           (''status'', JObj [(''state'', state)]),
           (''artifacts'', JArr [JObj [(''parts'', JArr
              [JObj [(''type'', JStr ''data''),
                     (''data'', result),
                     (''mimeType'', JStr ''application/json'')]])]])]"

text \<open>
  The task store is the module's dict \<^verbatim>\<open>tasks\<close>, keyed by strings. \<^verbatim>\<open>task_id in tasks\<close>
  hashes the id first: a list or a dict is unhashable; any other value that is not a
  string equals no key.
\<close>

type_synonym store = "string \<rightharpoonup> json"

fun lookup_task :: "store \<Rightarrow> json \<Rightarrow> exn + (string \<times> json) option" where
  "lookup_task tasks (JStr s) = Inr (case tasks s of None \<Rightarrow> None | Some t \<Rightarrow> Some (s, t))"
| "lookup_task tasks (JArr xs) = Inl TypeError"
| "lookup_task tasks (JObj d) = Inl TypeError"
| "lookup_task tasks _ = Inr None"

text \<open>Line 518: \<^verbatim>\<open>tasks[task_id]["status"]["state"] = "canceled"\<close>, on the stored task.\<close>

definition set_canceled :: "json \<Rightarrow> exn + json" where
  "set_canceled task =
     and_then (getitem task ''status'') (\<lambda>status.
     and_then (setitem status ''state'' (JStr ''canceled'')) (\<lambda>status'.
       setitem task ''status'' status'))"

text \<open>
  \<^verbatim>\<open>handle_a2a\<close> (lines 429-531), with its three method branches first. The body is
  \<open>None\<close> when it is not JSON. The result is the response (or the exception that leaves
  the handler), the task store after the request, and the query-parameter sets sent
  upstream. The store is written before the response is built (line 495 before line
  500, line 518 before line 519): when building the response raises, the store keeps
  the new task or the canceled state.
\<close>

definition tasks_send :: "env \<Rightarrow> store \<Rightarrow> json \<Rightarrow> dict \<Rightarrow> (exn + response) \<times> store \<times> dict list" where
  "tasks_send env tasks request_id params =
     (case run_skill env params of
        Inl e \<Rightarrow> (Inl e, tasks, [])
      | Inr (result, calls) \<Rightarrow>
          (let task = new_task (uuid4 env) (JStr ''completed'') result in
           (JSONResponse (create_json_rpc_response request_id task),
            tasks(uuid4 env \<mapsto> task), calls)))"

definition tasks_get :: "store \<Rightarrow> json \<Rightarrow> dict \<Rightarrow> (exn + response) \<times> store \<times> dict list" where
  "tasks_get tasks request_id params =
     (case lookup_task tasks (dict_get params ''id'' JNull) of
        Inl e \<Rightarrow> (Inl e, tasks, [])
      | Inr (Some (s, task)) \<Rightarrow>
          (JSONResponse (create_json_rpc_response request_id task), tasks, [])
      | Inr None \<Rightarrow>
          (JSONResponse (create_json_rpc_error request_id (- 32000) ''Task not found'' JNull),
           tasks, []))"

definition tasks_cancel :: "store \<Rightarrow> json \<Rightarrow> dict \<Rightarrow> (exn + response) \<times> store \<times> dict list" where
  "tasks_cancel tasks request_id params =
     (case lookup_task tasks (dict_get params ''id'' JNull) of
        Inl e \<Rightarrow> (Inl e, tasks, [])
      | Inr (Some (s, task)) \<Rightarrow>
          (case set_canceled task of
             Inl e \<Rightarrow> (Inl e, tasks, [])
           | Inr task' \<Rightarrow>
               (JSONResponse (create_json_rpc_response request_id task'),
                tasks(s \<mapsto> task'), []))
      | Inr None \<Rightarrow>
          (JSONResponse (create_json_rpc_error request_id (- 32000) ''Task not found'' JNull),
           tasks, []))"

text \<open>
  Lines 437-449: the body is read, logged and validated inside the \<^verbatim>\<open>try\<close>; a missing
  \<^verbatim>\<open>params\<close> counts as \<^verbatim>\<open>{}\<close>.
\<close>

definition parse_body :: "json option \<Rightarrow> exn + JsonRpcRequest" where
  "parse_body body =
     and_then (case body of None \<Rightarrow> Inl JSONDecodeError | Some b \<Rightarrow> Inr b) (\<lambda>b.
     and_then (json_dumps True b) (\<lambda>_. validate_request b))"

definition request_params :: "JsonRpcRequest \<Rightarrow> dict" where
  "request_params rpc_request = (case rpc_params rpc_request of None \<Rightarrow> [] | Some p \<Rightarrow> p)"

definition handle_a2a :: "env \<Rightarrow> store \<Rightarrow> json option \<Rightarrow> (exn + response) \<times> store \<times> dict list" where
  "handle_a2a env tasks body =
     (case parse_body body of
        Inl e \<Rightarrow>
          (JSONResponse (create_json_rpc_error JNull (- 32700) (''Parse error: '' @ str_exc env e) JNull),
           tasks, [])
      | Inr rpc_request \<Rightarrow>
          (let params = request_params rpc_request;
               request_id = rpc_id rpc_request in
           if rpc_method rpc_request = ''tasks/send'' then tasks_send env tasks request_id params
           else if rpc_method rpc_request = ''tasks/get'' then tasks_get tasks request_id params
           else if rpc_method rpc_request = ''tasks/cancel'' then tasks_cancel tasks request_id params
           else
             (JSONResponse (create_json_rpc_error request_id (- 32601)
                (''Method not found: '' @ rpc_method rpc_request) JNull),
              tasks, [])))"

text \<open>
  An exception that leaves the handler is answered by the framework with status 500;
  otherwise the status is the one of the response the handler returned.
\<close>

definition http_status :: "exn + response \<Rightarrow> int" where
  "http_status r = (case r of Inl e \<Rightarrow> 500 | Inr resp \<Rightarrow> status_code resp)"

text \<open>
  The task stores the server can be in: it starts empty and changes only through
  \<^verbatim>\<open>handle_a2a\<close>. Beside the store, \<open>reachable\<close> keeps for each task id the value the skill
  returned when the task with that id was created (it is no part of the program).
\<close>

definition skill_return :: "env \<Rightarrow> json option \<Rightarrow> json option" where
  "skill_return env body =
     (case parse_body body of
        Inl e \<Rightarrow> None
      | Inr rpc_request \<Rightarrow>
          if rpc_method rpc_request = ''tasks/send'' then
            (case run_skill env (request_params rpc_request) of
               Inl e \<Rightarrow> None
             | Inr (result, calls) \<Rightarrow> Some result)
          else None)"

inductive reachable :: "store \<Rightarrow> (string \<rightharpoonup> json) \<Rightarrow> bool" where
  start: "reachable Map.empty Map.empty"
| request:
    "reachable tasks returned \<Longrightarrow>
     reachable (fst (snd (handle_a2a env tasks body)))
       (case skill_return env body of
          None \<Rightarrow> returned
        | Some result \<Rightarrow> returned(uuid4 env \<mapsto> result))"

text \<open>
  The invariant of the task store, for the proofs: every stored task is the task object
  of lines 480-494 under its own id, with state \<^verbatim>\<open>completed\<close> or \<^verbatim>\<open>canceled\<close>, around the
  value recorded for that id.
\<close>

definition stored_ok :: "store \<Rightarrow> (string \<rightharpoonup> json) \<Rightarrow> bool" where
  "stored_ok tasks returned \<longleftrightarrow>
     (\<forall>tid t. tasks tid = Some t \<longrightarrow>
        (\<exists>st result. returned tid = Some result \<and> (st = ''completed'' \<or> st = ''canceled'') \<and>
           t = new_task tid (JStr st) result))"

section \<open>The loop body in closed form\<close>

text \<open>
  For the proofs about the loop of lines 237-289. \<open>extractable\<close> holds of a property on
  which the extraction of lines 240-281 runs to its end: its \<^verbatim>\<open>images\<close> can be sliced
  and its first six are dicts, its \<^verbatim>\<open>gps_coordinates\<close> is a dict, and its
  \<^verbatim>\<open>rate_per_night\<close> and \<^verbatim>\<open>total_rate\<close> are dicts when truthy; \<open>extracted_record\<close> is the
  hotel dict the extraction then builds. \<open>comparable\<close> holds when the test of line 284
  does not raise, and \<open>skipped\<close> when it tells to skip the record. They are proved to
  agree with \<open>process_property\<close>; the statement about the hotel list spells them out.
\<close>

definition image_list :: "json \<Rightarrow> json list" where
  "image_list images =
     (case images of
        JArr imgs \<Rightarrow>
          concat (map (\<lambda>img.
            if truthy (dict_get (dict_of img) ''thumbnail'' JNull)
            then [dict_get (dict_of img) ''thumbnail'' JNull]
            else if truthy (dict_get (dict_of img) ''original_image'' JNull)
            then [dict_get (dict_of img) ''original_image'' JNull]
            else []) (take 6 imgs))
      | _ \<Rightarrow> [])"

definition images_ok :: "json \<Rightarrow> bool" where
  "images_ok images =
     (case images of JArr imgs \<Rightarrow> list_all is_dict (take 6 imgs) | JStr s \<Rightarrow> s = [] | _ \<Rightarrow> False)"

definition extractable :: "dict \<Rightarrow> bool" where
  "extractable p \<longleftrightarrow>
     images_ok (dict_get p ''images'' (JArr [])) \<and>
     is_dict (dict_get p ''gps_coordinates'' (JObj [])) \<and>
     (\<not> truthy (dict_get p ''rate_per_night'' JNull) \<or> is_dict (dict_get p ''rate_per_night'' JNull)) \<and>
     (\<not> truthy (dict_get p ''total_rate'' JNull) \<or> is_dict (dict_get p ''total_rate'' JNull))"

definition extracted_record :: "json \<Rightarrow> json \<Rightarrow> json \<Rightarrow> dict \<Rightarrow> dict" where
  "extracted_record currency check_in check_out p =
     [(''name'', dict_get p ''name'' (JStr ''Unknown'')),
      (''description'', dict_get p ''description'' (JStr '''')),
      (''propertyToken'', dict_get p ''property_token'' (JStr '''')),
      (''rating'', dict_get p ''overall_rating'' JNull),
      (''reviewCount'', dict_get p ''reviews'' JNull),
      (''stars'', dict_get p ''hotel_class'' JNull),
      (''price'',
         if truthy (dict_get p ''rate_per_night'' JNull)
         then dict_get (dict_of (dict_get p ''rate_per_night'' JNull)) ''lowest'' (JStr '''') else JNull),
      (''pricePerNight'',
         if truthy (dict_get p ''rate_per_night'' JNull)
         then dict_get (dict_of (dict_get p ''rate_per_night'' JNull)) ''extracted_lowest'' JNull else JNull),
      (''totalPrice'',
         if truthy (dict_get p ''total_rate'' JNull)
         then dict_get (dict_of (dict_get p ''total_rate'' JNull)) ''extracted_lowest'' JNull else JNull),
      (''currency'', currency),
      (''location'', JObj
         [(''address'', dict_get p ''address'' (JStr '''')),
          (''neighborhood'', dict_get p ''neighborhood'' (JStr '''')),
          (''latitude'', dict_get (dict_of (dict_get p ''gps_coordinates'' (JObj []))) ''latitude'' JNull),
          (''longitude'', dict_get (dict_of (dict_get p ''gps_coordinates'' (JObj []))) ''longitude'' JNull)]),
      (''amenities'', dict_get p ''amenities'' (JArr [])),
      (''images'', JArr (image_list (dict_get p ''images'' (JArr [])))),
      (''checkIn'', check_in),
      (''checkOut'', check_out)]"

definition skipped :: "(json list \<Rightarrow> json list \<Rightarrow> exn + bool) \<Rightarrow> json \<Rightarrow> dict \<Rightarrow> bool" where
  "skipped lt min_rating p \<longleftrightarrow>
     truthy min_rating \<and> truthy (dict_get p ''overall_rating'' JNull) \<and>
     py_lt lt (dict_get p ''overall_rating'' JNull) min_rating = Inr True"

definition comparable :: "(json list \<Rightarrow> json list \<Rightarrow> exn + bool) \<Rightarrow> json \<Rightarrow> dict \<Rightarrow> bool" where
  "comparable lt min_rating p \<longleftrightarrow>
     \<not> (truthy min_rating \<and> truthy (dict_get p ''overall_rating'' JNull)) \<or>
     (\<exists>b. py_lt lt (dict_get p ''overall_rating'' JNull) min_rating = Inr b)"

section \<open>Inputs for the examples\<close>

text \<open>
  A credential is configured, the upstream times out, and the runtime parameters are
  constant; the examples below change single fields of it.
\<close>

definition example_env :: env where
  "example_env = \<lparr>SERPAPI_API_KEY = ''key'', tomorrow = ''2025-01-02'', in_three_days = ''2025-01-04'',
     upstream = (\<lambda>q. Timeout), uuid4 = ''id-1'', exc_str = (\<lambda>e. ''error''), repr = (\<lambda>v. ''?''),
     lt_list = (\<lambda>xs ys. Inl TypeError),
     http_error_text = (\<lambda>status. (''Client error: '', '' for the url''))\<rparr>"

text \<open>
  Twelve upstream properties: the seventh has no rating, the second is rated 4.5, the
  last two 5 and the others 3. \<open>listed\<close> is the hotel record of a property that has only
  a name and a rating, in a search without dates or currency under \<open>example_env\<close>.
\<close>

definition twelve_properties :: "json list" where
  "twelve_properties =
     [JObj [(''name'', JStr ''h01''), (''overall_rating'', JInt 3)],
      JObj [(''name'', JStr ''h02''), (''overall_rating'', JFloat (9 / 2))],
      JObj [(''name'', JStr ''h03''), (''overall_rating'', JInt 3)],
      JObj [(''name'', JStr ''h04''), (''overall_rating'', JInt 3)],
      JObj [(''name'', JStr ''h05''), (''overall_rating'', JInt 3)],
      JObj [(''name'', JStr ''h06''), (''overall_rating'', JInt 3)],
      JObj [(''name'', JStr ''h07'')],
      JObj [(''name'', JStr ''h08''), (''overall_rating'', JInt 3)],
      JObj [(''name'', JStr ''h09''), (''overall_rating'', JInt 3)],
      JObj [(''name'', JStr ''h10''), (''overall_rating'', JInt 3)],
      JObj [(''name'', JStr ''h11''), (''overall_rating'', JInt 5)],
      JObj [(''name'', JStr ''h12''), (''overall_rating'', JInt 5)]]"

definition twelve_env :: env where
  "twelve_env =
     example_env\<lparr>upstream := \<lambda>q. Response 200 (Some (JObj [(''properties'', JArr twelve_properties)]))\<rparr>"

definition listed :: "string \<Rightarrow> json \<Rightarrow> json" where
  "listed name rating =
     JObj [(''name'', JStr name), (''description'', JStr ''''), (''propertyToken'', JStr ''''),
           (''rating'', rating), (''reviewCount'', JNull), (''stars'', JNull),
           (''price'', JNull), (''pricePerNight'', JNull), (''totalPrice'', JNull),
           (''currency'', JStr ''USD''),
           (''location'', JObj [(''address'', JStr ''''), (''neighborhood'', JStr ''''),
                              (''latitude'', JNull), (''longitude'', JNull)]),
           (''amenities'', JArr []), (''images'', JArr []),
           (''checkIn'', JStr ''2025-01-02''), (''checkOut'', JStr ''2025-01-04'')]"

text \<open>
  Requests for the examples: a \<^verbatim>\<open>tasks/send\<close> for a skill that does not exist (its result
  is the skill's error dict), a \<^verbatim>\<open>tasks/cancel\<close> of the task \<^verbatim>\<open>id-1\<close>, and a \<^verbatim>\<open>tasks/send\<close>
  of a search whose message has no parts.
\<close>

definition unknown_skill_request :: json where
  "unknown_skill_request =
     JObj [(''jsonrpc'', JStr ''2.0''), (''id'', JInt 1), (''method'', JStr ''tasks/send''),
           (''params'', JObj [(''skillId'', JStr ''x'')])]"

definition unknown_skill_result :: json where
  "unknown_skill_result = JObj [(''success'', JBool False), (''error'', JStr ''Unknown skill: x'')]"

definition cancel_request :: json where
  "cancel_request =
     JObj [(''jsonrpc'', JStr ''2.0''), (''id'', JInt 2), (''method'', JStr ''tasks/cancel''),
           (''params'', JObj [(''id'', JStr ''id-1'')])]"

definition no_parts_request :: json where
  "no_parts_request =
     JObj [(''jsonrpc'', JStr ''2.0''), (''id'', JInt 4), (''method'', JStr ''tasks/send''),
           (''params'', JObj [(''skillId'', JStr ''search-hotels-live''), (''message'', JObj [])])]"

section \<open>Properties\<close>

lemma and_then_Inr [simp]: "and_then (Inr v) f = f v"
  by (simp add: and_then_def)

lemma and_then_Inl [simp]: "and_then (Inl e) f = Inl e"
  by (simp add: and_then_def)

lemma json_dumps_True [simp]: "json_dumps True x = Inr ()"
  by (simp add: json_dumps_def)

subsection \<open>Image extraction\<close>

lemma image_urls_dicts:
  "list_all is_dict imgs \<Longrightarrow>
   image_urls imgs = Inr (concat (map (\<lambda>img. case img of JObj i \<Rightarrow>
       (if truthy (dict_get i ''thumbnail'' JNull) then [dict_get i ''thumbnail'' JNull]
        else if truthy (dict_get i ''original_image'' JNull) then [dict_get i ''original_image'' JNull]
        else []) | _ \<Rightarrow> []) imgs))"
proof (induction imgs)
  case Nil
  then show ?case by simp
next
  case (Cons img imgs)
  then obtain i where "img = JObj i" by (cases img) auto
  with Cons show ?case by (simp add: image_url_def py_or_def)
qed

text \<open>
  Claim C1, as the code has it. Let \<open>imgs\<close> be the property's image list (\<^verbatim>\<open>[]\<close> when the
  property has no \<^verbatim>\<open>images\<close>), its first six entries being objects. The extracted list
  goes through these first six entries in order and holds, for each, the value under
  \<^verbatim>\<open>thumbnail\<close> when that value is truthy, otherwise the value under \<^verbatim>\<open>original_image\<close>
  when that one is truthy, and nothing for an entry with neither. The fallback key is
  \<^verbatim>\<open>original_image\<close>, not \<^verbatim>\<open>original\<close>.
\<close>

theorem image_extraction:
  assumes "dict_get p ''images'' (JArr []) = JArr imgs" and "list_all is_dict (take 6 imgs)"
  shows "hotel_images p = Inr (JArr (concat (map (\<lambda>img. case img of JObj i \<Rightarrow>
       (if truthy (dict_get i ''thumbnail'' JNull) then [dict_get i ''thumbnail'' JNull]
        else if truthy (dict_get i ''original_image'' JNull) then [dict_get i ''original_image'' JNull]
        else []) | _ \<Rightarrow> []) (take 6 imgs))))"
  using assms by (simp add: hotel_images_def image_urls_dicts)

text \<open>The spec's example with the key the code reads: the result is \<^verbatim>\<open>["a", "b"]\<close>.\<close>

theorem image_extraction_witness:
  "dict_get [(''images'', JArr [JObj [(''thumbnail'', JStr ''a'')], JObj [(''original_image'', JStr ''b'')], JObj []])]
     ''images'' (JArr [])
     = JArr [JObj [(''thumbnail'', JStr ''a'')], JObj [(''original_image'', JStr ''b'')], JObj []]
   \<and> list_all is_dict (take 6 [JObj [(''thumbnail'', JStr ''a'')], JObj [(''original_image'', JStr ''b'')], JObj []])
   \<and> hotel_images [(''images'', JArr [JObj [(''thumbnail'', JStr ''a'')], JObj [(''original_image'', JStr ''b'')], JObj []])]
     = Inr (JArr [JStr ''a'', JStr ''b''])"
  using image_extraction [of "[(''images'', JArr [JObj [(''thumbnail'', JStr ''a'')], JObj [(''original_image'', JStr ''b'')], JObj []])]"
     "[JObj [(''thumbnail'', JStr ''a'')], JObj [(''original_image'', JStr ''b'')], JObj []]"]
  by (simp add: dict_get_def)

text \<open>
  The spec's example as it is written, \<^verbatim>\<open>[{thumbnail: "a"}, {original: "b"}, {}]\<close>: the
  second entry is dropped too, and the result is \<^verbatim>\<open>["a"]\<close>.
\<close>

theorem image_extraction_original_dropped:
  "hotel_images [(''images'', JArr [JObj [(''thumbnail'', JStr ''a'')], JObj [(''original'', JStr ''b'')], JObj []])]
     = Inr (JArr [JStr ''a''])
   \<and> hotel_images [(''images'', JArr [JObj [(''thumbnail'', JStr ''a'')], JObj [(''original'', JStr ''b'')], JObj []])]
     \<noteq> Inr (JArr [JStr ''a'', JStr ''b''])"
  by (simp add: hotel_images_def dict_get_def image_url_def py_or_def)

subsection \<open>The rating filter\<close>

lemma map_of_dict_set: "map_of (dict_set d k v) k' = (if k' = k then Some v else map_of d k')"
  by (induction d) auto

lemma and_then_eq_Inr: "and_then r f = Inr y \<longleftrightarrow> (\<exists>v. r = Inr v \<and> f v = Inr y)"
  by (cases r) auto

lemma build_hotel_rating:
  "build_hotel currency ci co p = Inr h \<Longrightarrow> map_of h ''rating'' = Some (dict_get p ''overall_rating'' JNull)"
  by (auto simp: build_hotel_def and_then_eq_Inr)

lemma extract_pricing_rating:
  "extract_pricing p h = Inr h' \<Longrightarrow> map_of h' ''rating'' = map_of h ''rating''"
  by (auto simp: extract_pricing_def Let_def and_then_eq_Inr map_of_dict_set split: if_splits)

lemma truthy_num: "num_of v = Some x \<Longrightarrow> truthy v \<longleftrightarrow> x \<noteq> 0"
  by (cases v) (auto split: if_splits)

lemma number_of_num: "num_of a = Some x \<Longrightarrow> number_of a = Some (Finite x)"
  by (cases a) auto

lemma py_lt_num: "num_of a = Some x \<Longrightarrow> num_of b = Some y \<Longrightarrow> py_lt lt a b = Inr (x < y)"
  by (simp add: py_lt_def number_of_num)

lemma process_property_skip:
  assumes "process_property lt currency ci co min_rating (JObj p) = Inr r"
  shows "\<exists>h. rating_filter lt min_rating h = Inr (r = None) \<and>
             map_of h ''rating'' = Some (dict_get p ''overall_rating'' JNull)"
  using assms
  by (auto simp: process_property_def and_then_eq_Inr build_hotel_rating extract_pricing_rating
      split: if_splits)

text \<open>
  Claim C2, as the code has it. When the loop body finishes on a property (\<open>r\<close> is
  \<open>None\<close> for a skipped record): a record whose \<^verbatim>\<open>overall_rating\<close> is absent or null is
  kept, whatever the minimum; and when the rating \<open>x\<close> and the requested minimum \<open>m\<close> are
  numbers, the record is dropped exactly when both are non-zero and \<open>x < m\<close>. The
  guard of line 284 tests truth values, so a rating of 0 is treated like no rating and
  a minimum of 0 like no minimum.
\<close>

theorem rating_filter_policy:
  assumes "process_property lt currency ci co min_rating (JObj p) = Inr r"
  shows "(dict_get p ''overall_rating'' JNull = JNull \<longrightarrow> r \<noteq> None) \<and>
         (\<forall>x m. num_of (dict_get p ''overall_rating'' JNull) = Some x \<and> num_of min_rating = Some m \<longrightarrow>
            (r = None \<longleftrightarrow> x \<noteq> 0 \<and> m \<noteq> 0 \<and> x < m))"
proof -
  from process_property_skip [OF assms] obtain h where
    h: "rating_filter lt min_rating h = Inr (r = None)"
       "map_of h ''rating'' = Some (dict_get p ''overall_rating'' JNull)" by blast
  show ?thesis
  proof (intro conjI allI impI)
    assume "dict_get p ''overall_rating'' JNull = JNull"
    with h show "r \<noteq> None" by (simp add: rating_filter_def)
  next
    fix x m
    assume n: "num_of (dict_get p ''overall_rating'' JNull) = Some x \<and> num_of min_rating = Some m"
    with h show "r = None \<longleftrightarrow> x \<noteq> 0 \<and> m \<noteq> 0 \<and> x < m"
      by (auto simp: rating_filter_def truthy_num py_lt_num split: if_splits)
  qed
qed

text \<open>Minimum 4.0 and a record rated 3.0: the record is dropped.\<close>

theorem rating_filter_policy_witness:
  "process_property (\<lambda>xs ys. Inl TypeError) (JStr ''USD'') (JStr ''2025-01-01'') (JStr ''2025-01-03'') (JFloat 4)
     (JObj [(''name'', JStr ''H''), (''overall_rating'', JFloat 3)]) = Inr None
   \<and> num_of (dict_get [(''name'', JStr ''H''), (''overall_rating'', JFloat 3)] ''overall_rating'' JNull) = Some 3
   \<and> num_of (JFloat 4) = Some 4
   \<and> ((None :: json option) = None) = ((3::rat) \<noteq> 0 \<and> (4::rat) \<noteq> 0 \<and> (3::rat) < 4)"
  using rating_filter_policy [of "\<lambda>xs ys. Inl TypeError" "JStr ''USD''" "JStr ''2025-01-01''" "JStr ''2025-01-03''" "JFloat 4"
     "[(''name'', JStr ''H''), (''overall_rating'', JFloat 3)]" None]
  by (simp add: process_property_def log_raw_images_def build_hotel_def extract_pricing_def
        rating_filter_def dict_get_def hotel_images_def py_lt_def)

text \<open>
  Minimum 4.0 and a record rated 0: the rating is not null and is below the minimum,
  yet the record is kept.
\<close>

theorem rating_zero_retained:
  "dict_get [(''name'', JStr ''H''), (''overall_rating'', JInt 0)] ''overall_rating'' JNull = JInt 0
   \<and> JInt 0 \<noteq> JNull \<and> num_of (JInt 0) = Some 0 \<and> num_of (JFloat 4) = Some 4 \<and> (0::rat) < 4
   \<and> process_property (\<lambda>xs ys. Inl TypeError) (JStr ''USD'') (JStr ''2025-01-01'') (JStr ''2025-01-03'') (JFloat 4)
     (JObj [(''name'', JStr ''H''), (''overall_rating'', JInt 0)]) \<noteq> Inr None"
  by (simp add: process_property_def log_raw_images_def build_hotel_def extract_pricing_def
        rating_filter_def dict_get_def hotel_images_def py_lt_def)

subsection \<open>The price filter\<close>

lemma str_int_100: "str_int 100 = ''100''"
  by code_simp

lemma str_int_300: "str_int 300 = ''300''"
  by code_simp

text \<open>
  Claim C3, as the code has it: the branches of lines 207-212 test truth values, so a
  bound counts as given when it is truthy (not null, not 0, not empty). With both bounds
  given the query carries the single parameter \<^verbatim>\<open>price\<close> of the form \<^verbatim>\<open>min,max\<close>; with one
  given, \<^verbatim>\<open>min_price\<close> or \<^verbatim>\<open>max_price\<close> alone; with none, no price parameter.
\<close>

theorem price_filter_encoding:
  fixes env :: env and d :: dict
  defines "mn \<equiv> dict_get d ''minPrice'' JNull" and "mx \<equiv> dict_get d ''maxPrice'' JNull"
    and "q \<equiv> search_params env d"
  shows "(truthy mn \<and> truthy mx \<longrightarrow>
            map_of q ''price'' = Some (JStr (py_str (repr env) mn @ '','' @ py_str (repr env) mx)) \<and>
            map_of q ''min_price'' = None \<and> map_of q ''max_price'' = None) \<and>
         (truthy mn \<and> \<not> truthy mx \<longrightarrow>
            map_of q ''min_price'' = Some mn \<and> map_of q ''price'' = None \<and> map_of q ''max_price'' = None) \<and>
         (\<not> truthy mn \<and> truthy mx \<longrightarrow>
            map_of q ''max_price'' = Some mx \<and> map_of q ''price'' = None \<and> map_of q ''min_price'' = None) \<and>
         (\<not> truthy mn \<and> \<not> truthy mx \<longrightarrow>
            map_of q ''price'' = None \<and> map_of q ''min_price'' = None \<and> map_of q ''max_price'' = None)"
  unfolding mn_def mx_def q_def search_params_def add_price_filter_def
  by (auto simp: map_of_dict_set)

text \<open>\<^verbatim>\<open>minPrice=100, maxPrice=300\<close> gives the combined parameter \<^verbatim>\<open>"100,300"\<close>.\<close>

theorem price_filter_encoding_witness:
  "truthy (dict_get [(''destination'', JStr ''Paris''), (''minPrice'', JInt 100), (''maxPrice'', JInt 300)] ''minPrice'' JNull)
   \<and> truthy (dict_get [(''destination'', JStr ''Paris''), (''minPrice'', JInt 100), (''maxPrice'', JInt 300)] ''maxPrice'' JNull)
   \<and> map_of (search_params example_env [(''destination'', JStr ''Paris''), (''minPrice'', JInt 100), (''maxPrice'', JInt 300)]) ''price''
       = Some (JStr ''100,300'')
   \<and> map_of (search_params example_env [(''destination'', JStr ''Paris''), (''minPrice'', JInt 100), (''maxPrice'', JInt 300)]) ''min_price'' = None
   \<and> map_of (search_params example_env [(''destination'', JStr ''Paris''), (''minPrice'', JInt 100), (''maxPrice'', JInt 300)]) ''max_price'' = None"
  using price_filter_encoding [of "[(''destination'', JStr ''Paris''), (''minPrice'', JInt 100), (''maxPrice'', JInt 300)]" example_env]
  by (simp add: dict_get_def str_int_100 str_int_300)

text \<open>
  \<^verbatim>\<open>minPrice=0, maxPrice=300\<close>: both are given, but the query has no combined parameter,
  only \<^verbatim>\<open>max_price\<close>; and \<^verbatim>\<open>minPrice=0\<close> alone adds no parameter.
\<close>

theorem zero_min_price_not_combined:
  "dict_get [(''minPrice'', JInt 0), (''maxPrice'', JInt 300)] ''minPrice'' JNull = JInt 0
   \<and> dict_get [(''minPrice'', JInt 0), (''maxPrice'', JInt 300)] ''maxPrice'' JNull = JInt 300
   \<and> map_of (search_params example_env [(''minPrice'', JInt 0), (''maxPrice'', JInt 300)]) ''price'' = None
   \<and> map_of (search_params example_env [(''minPrice'', JInt 0), (''maxPrice'', JInt 300)]) ''max_price'' = Some (JInt 300)
   \<and> map_of (search_params example_env [(''minPrice'', JInt 0)]) ''min_price'' = None"
  by (simp add: search_params_def add_price_filter_def dict_get_def)

subsection \<open>The credential check\<close>

text \<open>
  Claim C4, as the code has it. With no credential configured and a dict of parameters,
  \<^verbatim>\<open>search_hotels_live\<close> returns \<^verbatim>\<open>success=false\<close> with the message that the key is not
  configured, and sends nothing upstream. \<^verbatim>\<open>get_hotel_details\<close> does the same when the
  property token is truthy; it checks the token first (line 339), so with an empty or
  absent token the message is \<^verbatim>\<open>Property token is required\<close>, again with no outbound call.
\<close>

theorem no_credential_no_call:
  assumes "SERPAPI_API_KEY env = []"
  shows "search_hotels_live env (JObj d) =
           Inr (JObj [(''success'', JBool False),
                      (''error'', JStr ''SerpAPI API key not configured. Please set SERPAPI_API_KEY environment variable.''),
                      (''hotels'', JArr [])], []) \<and>
         (truthy (dict_get d ''propertyToken'' (JStr '''')) \<longrightarrow>
            get_hotel_details env (JObj d) =
              Inr (JObj [(''success'', JBool False), (''error'', JStr ''SerpAPI API key not configured'')], [])) \<and>
         (\<not> truthy (dict_get d ''propertyToken'' (JStr '''')) \<longrightarrow>
            get_hotel_details env (JObj d) =
              Inr (JObj [(''success'', JBool False), (''error'', JStr ''Property token is required'')], []))"
  using assms by (simp add: search_hotels_live_def get_hotel_details_def)

theorem no_credential_no_call_witness:
  "SERPAPI_API_KEY (example_env\<lparr>SERPAPI_API_KEY := []\<rparr>) = []
   \<and> truthy (dict_get [(''propertyToken'', JStr ''tok'')] ''propertyToken'' (JStr ''''))
   \<and> search_hotels_live (example_env\<lparr>SERPAPI_API_KEY := []\<rparr>) (JObj [(''propertyToken'', JStr ''tok'')]) =
           Inr (JObj [(''success'', JBool False),
                      (''error'', JStr ''SerpAPI API key not configured. Please set SERPAPI_API_KEY environment variable.''),
                      (''hotels'', JArr [])], [])
   \<and> get_hotel_details (example_env\<lparr>SERPAPI_API_KEY := []\<rparr>) (JObj [(''propertyToken'', JStr ''tok'')]) =
              Inr (JObj [(''success'', JBool False), (''error'', JStr ''SerpAPI API key not configured'')], [])"
  using no_credential_no_call [of "example_env\<lparr>SERPAPI_API_KEY := []\<rparr>" "[(''propertyToken'', JStr ''tok'')]"]
  by (simp add: dict_get_def)

text \<open>
  No credential and no property token: the error of \<^verbatim>\<open>get_hotel_details\<close> is about the
  token and does not mention the configuration.
\<close>

theorem no_credential_missing_token:
  "SERPAPI_API_KEY (example_env\<lparr>SERPAPI_API_KEY := []\<rparr>) = []
   \<and> get_hotel_details (example_env\<lparr>SERPAPI_API_KEY := []\<rparr>) (JObj []) =
       Inr (JObj [(''success'', JBool False), (''error'', JStr ''Property token is required'')], [])"
  by (simp add: get_hotel_details_def dict_get_def)

subsection \<open>Failures of the upstream call\<close>

lemma fetch_Timeout: "upstream env q = Timeout \<Longrightarrow> fetch env q = Inl TimeoutException"
  by (simp add: fetch_def)

lemma fetch_ConnectionFailed: "upstream env q = ConnectionFailed \<Longrightarrow> fetch env q = Inl ConnectError"
  by (simp add: fetch_def)

lemma fetch_non_2xx:
  "upstream env q = Response status body \<Longrightarrow> \<not> (200 \<le> status \<and> status \<le> 299) \<Longrightarrow>
   fetch env q = Inl (HTTPStatusError status)"
  by (auto simp: fetch_def)

lemma fetch_not_json:
  "upstream env q = Response status None \<Longrightarrow> 200 \<le> status \<and> status \<le> 299 \<Longrightarrow>
   fetch env q = Inl JSONDecodeError"
  by (simp add: fetch_def)

lemma fetch_Inr:
  "fetch env q = Inr data \<Longrightarrow>
   \<exists>status. upstream env q = Response status (Some data) \<and> 200 \<le> status \<and> status \<le> 299"
  by (auto simp: fetch_def split: outcome.splits option.splits if_splits)

lemma search_hotels_live_fetch_failed:
  assumes "SERPAPI_API_KEY env \<noteq> []" and "fetch env (search_params env d) = Inl e"
  shows "search_hotels_live env (JObj d) =
     Inr (JObj [(''success'', JBool False),
                (''error'', JStr (case e of
                     HTTPStatusError status \<Rightarrow> ''SerpAPI request failed: '' @ str_int status
                   | _ \<Rightarrow> ''Failed to search hotels: '' @ exc_str env e)),
                (''hotels'', JArr [])],
          [search_params env d])"
  using assms by (cases e) (simp_all add: search_hotels_live_def search_body_def str_exc_def)

lemma get_hotel_details_fetch_failed:
  assumes "SERPAPI_API_KEY env \<noteq> []" and "truthy (dict_get d ''propertyToken'' (JStr ''''))"
    and "fetch env (details_params env d) = Inl e"
  shows "get_hotel_details env (JObj d) =
     Inr (JObj [(''success'', JBool False),
                (''error'', JStr (''Failed to get hotel details: '' @ str_exc env e))],
          [details_params env d])"
  using assms by (simp add: get_hotel_details_def)

lemma search_hotels_live_total:
  "\<exists>r calls. search_hotels_live env (JObj d) = Inr (JObj r, calls) \<and>
     (map_of r ''success'' = Some (JBool True) \<and>
        (\<exists>status dd. upstream env (search_params env d) = Response status (Some (JObj dd)) \<and>
                      200 \<le> status \<and> status \<le> 299) \<or>
      map_of r ''success'' = Some (JBool False) \<and> (\<exists>msg. msg \<noteq> [] \<and> map_of r ''error'' = Some (JStr msg)))"
proof (cases "SERPAPI_API_KEY env = []")
  case True
  then show ?thesis by (simp add: search_hotels_live_def)
next
  case False
  show ?thesis
  proof (cases "search_body env d (search_params env d)")
    case (Inl e)
    with False show ?thesis by (cases e) (simp_all add: search_hotels_live_def)
  next
    case (Inr hs)
    then obtain data where f: "fetch env (search_params env d) = Inr data" and "is_dict data"
      by (cases "fetch env (search_params env d)") (auto simp: search_body_def split: json.splits)
    then obtain dd where "data = JObj dd" by (cases data) auto
    with fetch_Inr [OF f] False Inr show ?thesis by (auto simp: search_hotels_live_def)
  qed
qed

lemma get_hotel_details_total:
  "\<exists>r calls. get_hotel_details env (JObj d) = Inr (JObj r, calls) \<and>
     (map_of r ''success'' = Some (JBool True) \<and>
        (\<exists>status dd. upstream env (details_params env d) = Response status (Some (JObj dd)) \<and>
                      200 \<le> status \<and> status \<le> 299) \<or>
      map_of r ''success'' = Some (JBool False) \<and> (\<exists>msg. msg \<noteq> [] \<and> map_of r ''error'' = Some (JStr msg)))"
proof (cases "\<not> truthy (dict_get d ''propertyToken'' (JStr '''')) \<or> SERPAPI_API_KEY env = []")
  case True
  then show ?thesis by (auto simp: get_hotel_details_def)
next
  case False
  show ?thesis
  proof (cases "fetch env (details_params env d)")
    case (Inl e)
    with False show ?thesis by (simp add: get_hotel_details_def)
  next
    case (Inr data)
    from fetch_Inr [OF Inr] False Inr show ?thesis
      by (cases data) (auto simp: get_hotel_details_def)
  qed
qed

lemma str_int_404: "str_int 404 = ''404''"
  by code_simp

text \<open>
  Claim C5, as the code has it. On a dict of parameters (of JSON values, as a request
  delivers them), with any environment (so any upstream outcome: a response of any
  status, with or without a JSON body, a timeout, a connection failure), both skills
  return a dict and no exception leaves them; the dict has \<^verbatim>\<open>success\<close> true only when
  the upstream answered with a status in 200..299 and a JSON object, and otherwise
  \<^verbatim>\<open>success\<close> false and a non-empty \<^verbatim>\<open>error\<close> string. Past the guards (a credential is
  configured and, for \<^verbatim>\<open>get_hotel_details\<close>, a property token is given) each failure
  of the upstream call gives exactly the failure result, after the one query: on a
  status outside 200..299, \<^verbatim>\<open>search_hotels_live\<close> answers
  \<^verbatim>\<open>SerpAPI request failed: <status>\<close>, the status in decimal, and \<^verbatim>\<open>get_hotel_details\<close>,
  which has no handler of its own for it, answers \<^verbatim>\<open>Failed to get hotel details: \<close>
  followed by the text of the HTTP exception, which holds the status in decimal; on a
  timeout, a connection failure or a body that is not JSON, the message is the skill's
  prefix followed by the text of the exception.
\<close>

theorem failures_become_results:
  fixes env :: env and d :: dict
  defines "q \<equiv> search_params env d" and "q' \<equiv> details_params env d"
    and "search_failed \<equiv> \<lambda>msg. Inr (JObj [(''success'', JBool False), (''error'', JStr msg), (''hotels'', JArr [])],
                                    [search_params env d])"
    and "details_failed \<equiv> \<lambda>msg. Inr (JObj [(''success'', JBool False), (''error'', JStr msg)],
                                    [details_params env d])"
    and "ready \<equiv> SERPAPI_API_KEY env \<noteq> []"
    and "ready' \<equiv> SERPAPI_API_KEY env \<noteq> [] \<and> truthy (dict_get d ''propertyToken'' (JStr ''''))"
  shows
    "(\<exists>r calls. search_hotels_live env (JObj d) = Inr (JObj r, calls) \<and>
        (map_of r ''success'' = Some (JBool True) \<and>
           (\<exists>status dd. upstream env q = Response status (Some (JObj dd)) \<and> 200 \<le> status \<and> status \<le> 299) \<or>
         map_of r ''success'' = Some (JBool False) \<and>
           (\<exists>msg. msg \<noteq> [] \<and> map_of r ''error'' = Some (JStr msg)))) \<and>
     (\<exists>r calls. get_hotel_details env (JObj d) = Inr (JObj r, calls) \<and>
        (map_of r ''success'' = Some (JBool True) \<and>
           (\<exists>status dd. upstream env q' = Response status (Some (JObj dd)) \<and> 200 \<le> status \<and> status \<le> 299) \<or>
         map_of r ''success'' = Some (JBool False) \<and>
           (\<exists>msg. msg \<noteq> [] \<and> map_of r ''error'' = Some (JStr msg)))) \<and>
     (ready \<and> upstream env q = Response status body \<and> \<not> (200 \<le> status \<and> status \<le> 299) \<longrightarrow>
        search_hotels_live env (JObj d) = search_failed (''SerpAPI request failed: '' @ str_int status)) \<and>
     (ready \<and> upstream env q = Timeout \<longrightarrow>
        search_hotels_live env (JObj d) =
          search_failed (''Failed to search hotels: '' @ exc_str env TimeoutException)) \<and>
     (ready \<and> upstream env q = ConnectionFailed \<longrightarrow>
        search_hotels_live env (JObj d) =
          search_failed (''Failed to search hotels: '' @ exc_str env ConnectError)) \<and>
     (ready \<and> upstream env q = Response status None \<and> 200 \<le> status \<and> status \<le> 299 \<longrightarrow>
        search_hotels_live env (JObj d) =
          search_failed (''Failed to search hotels: '' @ exc_str env JSONDecodeError)) \<and>
     (ready' \<and> upstream env q' = Response status body \<and> \<not> (200 \<le> status \<and> status \<le> 299) \<longrightarrow>
        get_hotel_details env (JObj d) =
          details_failed (''Failed to get hotel details: '' @ fst (http_error_text env status) @
                          str_int status @ snd (http_error_text env status))) \<and>
     (ready' \<and> upstream env q' = Timeout \<longrightarrow>
        get_hotel_details env (JObj d) =
          details_failed (''Failed to get hotel details: '' @ exc_str env TimeoutException)) \<and>
     (ready' \<and> upstream env q' = ConnectionFailed \<longrightarrow>
        get_hotel_details env (JObj d) =
          details_failed (''Failed to get hotel details: '' @ exc_str env ConnectError)) \<and>
     (ready' \<and> upstream env q' = Response status None \<and> 200 \<le> status \<and> status \<le> 299 \<longrightarrow>
        get_hotel_details env (JObj d) =
          details_failed (''Failed to get hotel details: '' @ exc_str env JSONDecodeError))"
  unfolding q_def q'_def search_failed_def details_failed_def ready_def ready'_def
  using search_hotels_live_total [of env d] get_hotel_details_total [of env d]
    search_hotels_live_fetch_failed [of env d] get_hotel_details_fetch_failed [of env d]
    fetch_non_2xx [of env _ status body] fetch_Timeout [of env] fetch_ConnectionFailed [of env]
    fetch_not_json [of env _ status]
  by (simp add: str_exc_def)

text \<open>The upstream answers 404 to a search for Paris and to the details of a token.\<close>

theorem failures_become_results_witness:
  "SERPAPI_API_KEY (example_env\<lparr>upstream := \<lambda>q. Response 404 None\<rparr>) \<noteq> []
   \<and> truthy (dict_get [(''destination'', JStr ''Paris''), (''propertyToken'', JStr ''tok'')] ''propertyToken'' (JStr ''''))
   \<and> upstream (example_env\<lparr>upstream := \<lambda>q. Response 404 None\<rparr>)
        (search_params (example_env\<lparr>upstream := \<lambda>q. Response 404 None\<rparr>)
           [(''destination'', JStr ''Paris''), (''propertyToken'', JStr ''tok'')])
      = Response 404 None
   \<and> \<not> (200 \<le> (404::int) \<and> (404::int) \<le> 299)
   \<and> search_hotels_live (example_env\<lparr>upstream := \<lambda>q. Response 404 None\<rparr>)
        (JObj [(''destination'', JStr ''Paris''), (''propertyToken'', JStr ''tok'')]) =
        Inr (JObj [(''success'', JBool False),
                   (''error'', JStr ''SerpAPI request failed: 404''),
                   (''hotels'', JArr [])],
             [search_params (example_env\<lparr>upstream := \<lambda>q. Response 404 None\<rparr>)
                [(''destination'', JStr ''Paris''), (''propertyToken'', JStr ''tok'')]])
   \<and> get_hotel_details (example_env\<lparr>upstream := \<lambda>q. Response 404 None\<rparr>)
        (JObj [(''destination'', JStr ''Paris''), (''propertyToken'', JStr ''tok'')]) =
        Inr (JObj [(''success'', JBool False),
                   (''error'', JStr ''Failed to get hotel details: Client error: 404 for the url'')],
             [details_params (example_env\<lparr>upstream := \<lambda>q. Response 404 None\<rparr>)
                [(''destination'', JStr ''Paris''), (''propertyToken'', JStr ''tok'')]])"
  using failures_become_results [of "example_env\<lparr>upstream := \<lambda>q. Response 404 None\<rparr>"
      "[(''destination'', JStr ''Paris''), (''propertyToken'', JStr ''tok'')]" 404 None]
  by (simp add: example_env_def str_int_404 dict_get_def)

text \<open>
  Parameters that are not a dict: \<^verbatim>\<open>params.get\<close> raises before the \<^verbatim>\<open>try\<close>, and the
  exception leaves the skill. A \<^verbatim>\<open>tasks/send\<close> request whose data part holds a list
  reaches the skill with such parameters, and the exception leaves the handler too.
\<close>

theorem non_dict_params_raise:
  "search_hotels_live example_env (JArr []) = Inl AttributeError
   \<and> get_hotel_details example_env JNull = Inl AttributeError
   \<and> fst (handle_a2a example_env Map.empty
        (Some (JObj [(''jsonrpc'', JStr ''2.0''), (''id'', JInt 1), (''method'', JStr ''tasks/send''),
                     (''params'', JObj [(''skillId'', JStr ''search-hotels-live''),
                                      (''message'', JObj [(''parts'', JArr [JObj [(''type'', JStr ''data''), (''data'', JArr [])]])])])])))
      = Inl AttributeError"
  by (simp add: search_hotels_live_def get_hotel_details_def handle_a2a_def parse_body_def
        request_params_def validate_request_def validate_params_def dict_get_def tasks_send_def
        run_skill_def task_params_of_def execute_skill_def)

subsection \<open>Truncation to ten records\<close>

lemma image_urls_Inr:
  "image_urls imgs = Inr us \<longleftrightarrow>
   list_all is_dict imgs \<and>
   us = concat (map (\<lambda>img.
            if truthy (dict_get (dict_of img) ''thumbnail'' JNull)
            then [dict_get (dict_of img) ''thumbnail'' JNull]
            else if truthy (dict_get (dict_of img) ''original_image'' JNull)
            then [dict_get (dict_of img) ''original_image'' JNull]
            else []) imgs)"
proof (induction imgs arbitrary: us)
  case Nil
  then show ?case by auto
next
  case (Cons img imgs)
  show ?case
  proof (cases img)
    case (JObj i)
    with Cons show ?thesis
      by (auto simp: and_then_eq_Inr image_url_def py_or_def)
  qed simp_all
qed

lemma image_urls_chars: "image_urls (map (\<lambda>c. JStr [c]) s) = Inr us \<longleftrightarrow> s = [] \<and> us = []"
  by (cases s) auto

lemma chars_not_dicts: "list_all is_dict (map (\<lambda>c. JStr [c]) s) \<longleftrightarrow> s = []"
  by (cases s) auto

lemma hotel_images_Inr:
  "hotel_images p = Inr v \<longleftrightarrow>
   images_ok (dict_get p ''images'' (JArr [])) \<and> v = JArr (image_list (dict_get p ''images'' (JArr [])))"
  by (cases "dict_get p ''images'' (JArr [])")
     (auto simp: hotel_images_def images_ok_def image_list_def and_then_eq_Inr image_urls_Inr chars_not_dicts)

lemma log_raw_images_ok:
  "images_ok (dict_get p ''images'' (JArr [])) \<Longrightarrow> log_raw_images p = Inr ()"
  by (cases "dict_get p ''images'' (JArr [])")
     (auto simp: log_raw_images_def images_ok_def Let_def split: list.splits)

lemma py_get_Inr: "py_get x k dflt = Inr v \<longleftrightarrow> is_dict x \<and> v = dict_get (dict_of x) k dflt"
  by (cases x) auto

lemma build_hotel_Inr:
  "build_hotel currency check_in check_out p = Inr h \<longleftrightarrow>
   is_dict (dict_get p ''gps_coordinates'' (JObj [])) \<and>
   images_ok (dict_get p ''images'' (JArr [])) \<and>
   h = [(''name'', dict_get p ''name'' (JStr ''Unknown'')),
        (''description'', dict_get p ''description'' (JStr '''')),
        (''propertyToken'', dict_get p ''property_token'' (JStr '''')),
        (''rating'', dict_get p ''overall_rating'' JNull),
        (''reviewCount'', dict_get p ''reviews'' JNull),
        (''stars'', dict_get p ''hotel_class'' JNull),
        (''price'', JNull),
        (''pricePerNight'', JNull),
        (''totalPrice'', JNull),
        (''currency'', currency),
        (''location'', JObj
           [(''address'', dict_get p ''address'' (JStr '''')),
            (''neighborhood'', dict_get p ''neighborhood'' (JStr '''')),
            (''latitude'', dict_get (dict_of (dict_get p ''gps_coordinates'' (JObj []))) ''latitude'' JNull),
            (''longitude'', dict_get (dict_of (dict_get p ''gps_coordinates'' (JObj []))) ''longitude'' JNull)]),
        (''amenities'', dict_get p ''amenities'' (JArr [])),
        (''images'', JArr (image_list (dict_get p ''images'' (JArr [])))),
        (''checkIn'', check_in),
        (''checkOut'', check_out)]"
  by (auto simp: build_hotel_def and_then_eq_Inr py_get_Inr hotel_images_Inr)

lemma extract_pricing_base:
  "extract_pricing p
     [(''name'', n), (''description'', de), (''propertyToken'', tk), (''rating'', ra),
      (''reviewCount'', rc), (''stars'', st), (''price'', JNull), (''pricePerNight'', JNull),
      (''totalPrice'', JNull), (''currency'', cu), (''location'', lo), (''amenities'', am),
      (''images'', im), (''checkIn'', ci), (''checkOut'', co)] = Inr h \<longleftrightarrow>
   (\<not> truthy (dict_get p ''rate_per_night'' JNull) \<or> is_dict (dict_get p ''rate_per_night'' JNull)) \<and>
   (\<not> truthy (dict_get p ''total_rate'' JNull) \<or> is_dict (dict_get p ''total_rate'' JNull)) \<and>
   h = [(''name'', n), (''description'', de), (''propertyToken'', tk), (''rating'', ra),
        (''reviewCount'', rc), (''stars'', st),
        (''price'',
           if truthy (dict_get p ''rate_per_night'' JNull)
           then dict_get (dict_of (dict_get p ''rate_per_night'' JNull)) ''lowest'' (JStr '''') else JNull),
        (''pricePerNight'',
           if truthy (dict_get p ''rate_per_night'' JNull)
           then dict_get (dict_of (dict_get p ''rate_per_night'' JNull)) ''extracted_lowest'' JNull else JNull),
        (''totalPrice'',
           if truthy (dict_get p ''total_rate'' JNull)
           then dict_get (dict_of (dict_get p ''total_rate'' JNull)) ''extracted_lowest'' JNull else JNull),
        (''currency'', cu), (''location'', lo), (''amenities'', am),
        (''images'', im), (''checkIn'', ci), (''checkOut'', co)]"
  by (auto simp: extract_pricing_def Let_def and_then_eq_Inr py_get_Inr)

lemma extraction_Inr:
  "and_then (build_hotel currency check_in check_out p) (extract_pricing p) = Inr h \<longleftrightarrow>
   extractable p \<and> h = extracted_record currency check_in check_out p"
  unfolding and_then_eq_Inr build_hotel_Inr extractable_def extracted_record_def
  by (auto simp: extract_pricing_base)

lemma rating_filter_record:
  "rating_filter lt min_rating (extracted_record currency check_in check_out p) = Inr b \<longleftrightarrow>
   comparable lt min_rating p \<and> b = skipped lt min_rating p"
  by (auto simp: rating_filter_def extracted_record_def comparable_def skipped_def)

lemma process_property_Inr:
  "process_property lt currency check_in check_out min_rating prop = Inr r \<longleftrightarrow>
   is_dict prop \<and> extractable (dict_of prop) \<and> comparable lt min_rating (dict_of prop) \<and>
   r = (if skipped lt min_rating (dict_of prop) then None
        else Some (JObj (extracted_record currency check_in check_out (dict_of prop))))"
proof (cases "prop")
  case (JObj p)
  have e: "and_then (build_hotel currency check_in check_out p) (\<lambda>hotel.
             and_then (extract_pricing p hotel) f) =
           and_then (and_then (build_hotel currency check_in check_out p) (extract_pricing p)) f" for f
    by (cases "build_hotel currency check_in check_out p") simp_all
  show ?thesis
  proof (cases "extractable p")
    case True
    then have l: "log_raw_images p = Inr ()"
      by (simp add: extractable_def log_raw_images_ok)
    from True have x: "and_then (build_hotel currency check_in check_out p) (extract_pricing p) =
        Inr (extracted_record currency check_in check_out p)"
      by (simp add: extraction_Inr)
    show ?thesis
      unfolding JObj process_property_def
      by (simp add: l e x True and_then_eq_Inr rating_filter_record) auto
  next
    case False
    then have "\<And>h. and_then (build_hotel currency check_in check_out p) (extract_pricing p) \<noteq> Inr h"
      by (simp add: extraction_Inr)
    then obtain err where "and_then (build_hotel currency check_in check_out p) (extract_pricing p) = Inl err"
      by (cases "and_then (build_hotel currency check_in check_out p) (extract_pricing p)") auto
    then show ?thesis
      unfolding JObj process_property_def
      by (cases "log_raw_images p") (simp_all add: e False)
  qed
qed (simp_all add: process_property_def)

lemma transform_char:
  "transform L c ci co mr acc ps = Inr hs \<Longrightarrow>
   \<exists>rs. list_all2 (\<lambda>p r. process_property L c ci co mr p = Inr r) ps rs \<and> hs = acc @ List.map_filter id rs"
proof (induction ps arbitrary: acc)
  case Nil
  then show ?case by simp
next
  case (Cons p ps)
  from Cons.prems obtain r where r: "process_property L c ci co mr p = Inr r"
    and t: "transform L c ci co mr (case r of None \<Rightarrow> acc | Some hotel \<Rightarrow> acc @ [hotel]) ps = Inr hs"
    by (auto simp: and_then_eq_Inr)
  from Cons.IH [OF t] obtain rs where
    rs: "list_all2 (\<lambda>p r. process_property L c ci co mr p = Inr r) ps rs"
        "hs = (case r of None \<Rightarrow> acc | Some hotel \<Rightarrow> acc @ [hotel]) @ List.map_filter id rs" by blast
  have "list_all2 (\<lambda>p r. process_property L c ci co mr p = Inr r) (p # ps) (r # rs)"
    using r rs(1) by simp
  moreover have "hs = acc @ List.map_filter id (r # rs)"
    using rs(2) by (cases r) simp_all
  ultimately show ?case by blast
qed

lemma processed_all:
  "list_all2 (\<lambda>p r. process_property L c ci co mr p = Inr r) ps rs \<Longrightarrow>
   (\<forall>p \<in> set ps. is_dict p \<and> extractable (dict_of p) \<and> comparable L mr (dict_of p)) \<and>
   List.map_filter id rs =
     concat (map (\<lambda>p. if skipped L mr (dict_of p) then []
                        else [JObj (extracted_record c ci co (dict_of p))]) ps)"
  by (induction rule: list_all2_induct) (auto simp: process_property_Inr)

lemma length_kept_le:
  "length (concat (map (\<lambda>p. if s p then [] else [f p]) ps)) \<le> length ps"
  by (induction ps) auto

lemma slice_iter:
  "py_slice n v = Inr s \<Longrightarrow> py_iter s = Inr ps \<Longrightarrow>
   length ps \<le> n \<and> (\<forall>xs. v = JArr xs \<longrightarrow> ps = take n xs)"
  by (cases v) auto

lemma search_body_char:
  assumes "search_body env d q = Inr hs"
  shows "length hs \<le> 10 \<and>
    (\<exists>status dd. upstream env q = Response status (Some (JObj dd)) \<and>
       (\<forall>xs. dict_get dd ''properties'' (JArr []) = JArr xs \<longrightarrow>
          (\<forall>p \<in> set (take 10 xs).
              is_dict p \<and> extractable (dict_of p) \<and>
              comparable (lt_list env) (dict_get d ''minRating'' JNull) (dict_of p)) \<and>
          hs = concat (map (\<lambda>p.
                 if skipped (lt_list env) (dict_get d ''minRating'' JNull) (dict_of p) then []
                 else [JObj (extracted_record
                         (dict_get d ''currency'' (JStr ''USD''))
                         (default_date (dict_get d ''checkInDate'' JNull) (tomorrow env))
                         (default_date (dict_get d ''checkOutDate'' JNull) (in_three_days env))
                         (dict_of p))]) (take 10 xs))))"
proof -
  from assms obtain data where f: "fetch env q = Inr data"
    by (cases "fetch env q") (auto simp: search_body_def)
  with assms obtain dd where dd: "data = JObj dd"
    by (cases data) (auto simp: search_body_def)
  from f obtain status where u: "upstream env q = Response status (Some data)"
    by (auto simp: fetch_def split: outcome.splits option.splits if_splits)
  from assms f dd obtain s ps where s: "py_slice 10 (dict_get dd ''properties'' (JArr [])) = Inr s"
    and ps: "py_iter s = Inr ps"
    and t: "transform (lt_list env)
                (dict_get d ''currency'' (JStr ''USD''))
                (default_date (dict_get d ''checkInDate'' JNull) (tomorrow env))
                (default_date (dict_get d ''checkOutDate'' JNull) (in_three_days env))
                (dict_get d ''minRating'' JNull) [] ps = Inr hs"
    by (auto simp: search_body_def Let_def and_then_eq_Inr)
  from transform_char [OF t] obtain rs where
    rs: "list_all2 (\<lambda>p r. process_property (lt_list env)
                     (dict_get d ''currency'' (JStr ''USD''))
                     (default_date (dict_get d ''checkInDate'' JNull) (tomorrow env))
                     (default_date (dict_get d ''checkOutDate'' JNull) (in_three_days env))
                     (dict_get d ''minRating'' JNull) p = Inr r) ps rs"
    and hs: "hs = List.map_filter id rs" by auto
  note pa = processed_all [OF rs]
  from slice_iter [OF s ps] have len: "length ps \<le> 10"
    and tk: "\<forall>xs. dict_get dd ''properties'' (JArr []) = JArr xs \<longrightarrow> ps = take 10 xs" by auto
  have "length hs \<le> length ps"
    using hs pa by (simp add: length_kept_le)
  with len have "length hs \<le> 10" by simp
  moreover have "\<forall>xs. dict_get dd ''properties'' (JArr []) = JArr xs \<longrightarrow>
          (\<forall>p \<in> set (take 10 xs).
              is_dict p \<and> extractable (dict_of p) \<and>
              comparable (lt_list env) (dict_get d ''minRating'' JNull) (dict_of p)) \<and>
          hs = concat (map (\<lambda>p.
                 if skipped (lt_list env) (dict_get d ''minRating'' JNull) (dict_of p) then []
                 else [JObj (extracted_record
                         (dict_get d ''currency'' (JStr ''USD''))
                         (default_date (dict_get d ''checkInDate'' JNull) (tomorrow env))
                         (default_date (dict_get d ''checkOutDate'' JNull) (in_three_days env))
                         (dict_of p))]) (take 10 xs))"
    using tk pa hs by auto
  ultimately show ?thesis using u dd by blast
qed

lemma search_hotels_live_hotels:
  assumes "search_hotels_live env (JObj d) = Inr (JObj r, calls)"
  shows "\<exists>hs. map_of r ''hotels'' = Some (JArr hs) \<and> length hs \<le> 10 \<and>
     (map_of r ''success'' = Some (JBool True) \<longrightarrow>
       (\<exists>status dd. upstream env (search_params env d) = Response status (Some (JObj dd)) \<and>
          (\<forall>xs. dict_get dd ''properties'' (JArr []) = JArr xs \<longrightarrow>
             (\<forall>p \<in> set (take 10 xs).
                 is_dict p \<and> extractable (dict_of p) \<and>
                 comparable (lt_list env) (dict_get d ''minRating'' JNull) (dict_of p)) \<and>
             hs = concat (map (\<lambda>p.
                 if skipped (lt_list env) (dict_get d ''minRating'' JNull) (dict_of p) then []
                 else [JObj (extracted_record
                         (dict_get d ''currency'' (JStr ''USD''))
                         (default_date (dict_get d ''checkInDate'' JNull) (tomorrow env))
                         (default_date (dict_get d ''checkOutDate'' JNull) (in_three_days env))
                         (dict_of p))]) (take 10 xs)))))"
proof (cases "search_body env d (search_params env d)")
  case (Inl e)
  with assms show ?thesis
    by (cases e) (auto simp: search_hotels_live_def split: if_splits)
next
  case (Inr hs)
  from search_body_char [OF Inr] assms Inr show ?thesis
    by (auto simp: search_hotels_live_def split: if_splits)
qed

lemma twelve_search:
  "search_hotels_live twelve_env (JObj [(''destination'', JStr ''Paris''), (''minRating'', JInt 4)]) =
   Inr (JObj [(''success'', JBool True), (''destination'', JStr ''Paris''),
              (''checkIn'', JStr ''2025-01-02''), (''checkOut'', JStr ''2025-01-04''),
              (''hotelCount'', JInt 2),
              (''hotels'', JArr [listed ''h02'' (JFloat (9 / 2)), listed ''h07'' JNull]),
              (''source'', JStr ''Google Hotels via SerpAPI'')],
        [search_params twelve_env [(''destination'', JStr ''Paris''), (''minRating'', JInt 4)]])"
  by (simp add: search_hotels_live_def search_body_def fetch_def example_env_def twelve_env_def
      twelve_properties_def listed_def
      dict_get_def default_date_def process_property_def log_raw_images_def build_hotel_def
      extract_pricing_def rating_filter_def hotel_images_def py_lt_def)

text \<open>
  Claim C6. Whatever \<^verbatim>\<open>search_hotels_live\<close> returns on a dict of parameters, its \<^verbatim>\<open>hotels\<close>
  entry is a list of at most 10 records. When the search succeeded, the upstream body
  was an object, and if its \<^verbatim>\<open>properties\<close> is a list \<open>xs\<close>, then every one of \<open>take 10 xs\<close>
  was extracted in full (\<open>extracted\<close>: it is a dict on which the extraction of lines
  240-281 and the test of line 284 run without raising), also the ones the rating
  filter then drops, and the hotels are, in the order of \<open>xs\<close>, the records \<open>hotel p\<close>
  extracted from those \<open>p\<close> of \<open>take 10 xs\<close> that the filter does not drop (\<open>dropped\<close>).
  Nothing past the tenth entry is looked at, and a record is filtered only after the
  cut and after its extraction.
\<close>

theorem at_most_ten_hotels:
  fixes env :: env and d :: dict
  defines "currency \<equiv> dict_get d ''currency'' (JStr ''USD'')"
    and "check_in \<equiv> default_date (dict_get d ''checkInDate'' JNull) (tomorrow env)"
    and "check_out \<equiv> default_date (dict_get d ''checkOutDate'' JNull) (in_three_days env)"
    and "min_rating \<equiv> dict_get d ''minRating'' JNull"
    and "field \<equiv> \<lambda>p k dflt. dict_get (dict_of p) k dflt"
  defines "extracted \<equiv> \<lambda>p.
       is_dict p \<and>
       (case field p ''images'' (JArr []) of
          JArr imgs \<Rightarrow> list_all is_dict (take 6 imgs) | JStr s \<Rightarrow> s = [] | _ \<Rightarrow> False) \<and>
       is_dict (field p ''gps_coordinates'' (JObj [])) \<and>
       (\<not> truthy (field p ''rate_per_night'' JNull) \<or> is_dict (field p ''rate_per_night'' JNull)) \<and>
       (\<not> truthy (field p ''total_rate'' JNull) \<or> is_dict (field p ''total_rate'' JNull)) \<and>
       (\<not> (truthy min_rating \<and> truthy (field p ''overall_rating'' JNull)) \<or>
        (\<exists>b. py_lt (lt_list env) (field p ''overall_rating'' JNull) min_rating = Inr b))"
    and "dropped \<equiv> \<lambda>p.
       truthy min_rating \<and> truthy (field p ''overall_rating'' JNull) \<and>
       py_lt (lt_list env) (field p ''overall_rating'' JNull) min_rating = Inr True"
    and "hotel \<equiv> \<lambda>p. JObj
       [(''name'', field p ''name'' (JStr ''Unknown'')),
        (''description'', field p ''description'' (JStr '''')),
        (''propertyToken'', field p ''property_token'' (JStr '''')),
        (''rating'', field p ''overall_rating'' JNull),
        (''reviewCount'', field p ''reviews'' JNull),
        (''stars'', field p ''hotel_class'' JNull),
        (''price'',
           if truthy (field p ''rate_per_night'' JNull)
           then field (field p ''rate_per_night'' JNull) ''lowest'' (JStr '''') else JNull),
        (''pricePerNight'',
           if truthy (field p ''rate_per_night'' JNull)
           then field (field p ''rate_per_night'' JNull) ''extracted_lowest'' JNull else JNull),
        (''totalPrice'',
           if truthy (field p ''total_rate'' JNull)
           then field (field p ''total_rate'' JNull) ''extracted_lowest'' JNull else JNull),
        (''currency'', currency),
        (''location'', JObj
           [(''address'', field p ''address'' (JStr '''')),
            (''neighborhood'', field p ''neighborhood'' (JStr '''')),
            (''latitude'', field (field p ''gps_coordinates'' (JObj [])) ''latitude'' JNull),
            (''longitude'', field (field p ''gps_coordinates'' (JObj [])) ''longitude'' JNull)]),
        (''amenities'', field p ''amenities'' (JArr [])),
        (''images'', JArr
           (case field p ''images'' (JArr []) of
              JArr imgs \<Rightarrow>
                concat (map (\<lambda>img.
                  if truthy (field img ''thumbnail'' JNull) then [field img ''thumbnail'' JNull]
                  else if truthy (field img ''original_image'' JNull)
                  then [field img ''original_image'' JNull]
                  else []) (take 6 imgs))
            | _ \<Rightarrow> [])),
        (''checkIn'', check_in),
        (''checkOut'', check_out)]"
  assumes "search_hotels_live env (JObj d) = Inr (JObj r, calls)"
  shows "\<exists>hs. map_of r ''hotels'' = Some (JArr hs) \<and> length hs \<le> 10 \<and>
     (map_of r ''success'' = Some (JBool True) \<longrightarrow>
       (\<exists>status dd. upstream env (search_params env d) = Response status (Some (JObj dd)) \<and>
          (\<forall>xs. dict_get dd ''properties'' (JArr []) = JArr xs \<longrightarrow>
             (\<forall>p \<in> set (take 10 xs). extracted p) \<and>
             hs = concat (map (\<lambda>p. if dropped p then [] else [hotel p]) (take 10 xs)))))"
  using search_hotels_live_hotels [OF assms(9)]
  unfolding currency_def check_in_def check_out_def min_rating_def field_def extracted_def
    dropped_def hotel_def extractable_def images_ok_def comparable_def skipped_def
    extracted_record_def image_list_def
  by (simp only: conj_assoc)

text \<open>
  Twelve properties and a minimum rating of 4: of the first ten, the second (rated 4.5)
  and the seventh (no rating) are kept, in this order; the eleventh and twelfth, rated
  5, are past the cut.
\<close>

theorem at_most_ten_hotels_witness:
  "search_hotels_live twelve_env (JObj [(''destination'', JStr ''Paris''), (''minRating'', JInt 4)]) =
   Inr (JObj [(''success'', JBool True), (''destination'', JStr ''Paris''),
              (''checkIn'', JStr ''2025-01-02''), (''checkOut'', JStr ''2025-01-04''),
              (''hotelCount'', JInt 2),
              (''hotels'', JArr [listed ''h02'' (JFloat (9 / 2)), listed ''h07'' JNull]),
              (''source'', JStr ''Google Hotels via SerpAPI'')],
        [search_params twelve_env [(''destination'', JStr ''Paris''), (''minRating'', JInt 4)]])
   \<and> length twelve_properties = 12
   \<and> length [listed ''h02'' (JFloat (9 / 2)), listed ''h07'' JNull] \<le> 10"
  using at_most_ten_hotels [OF twelve_search] twelve_search
  by (simp add: twelve_properties_def)

text \<open>
  A property rated below the minimum whose \<^verbatim>\<open>gps_coordinates\<close> is null: the filter would
  drop the record, but its extraction comes first and raises, and the search fails.
\<close>

lemma below_minimum_record_is_extracted:
  "search_hotels_live
     (example_env\<lparr>upstream := \<lambda>q. Response 200 (Some (JObj [(''properties'', JArr
        [JObj [(''name'', JStr ''low''), (''overall_rating'', JInt 3), (''gps_coordinates'', JNull)]])]))\<rparr>)
     (JObj [(''destination'', JStr ''Paris''), (''minRating'', JInt 4)]) =
   Inr (JObj [(''success'', JBool False),
              (''error'', JStr ''Failed to search hotels: error''),
              (''hotels'', JArr [])],
        [search_params
           (example_env\<lparr>upstream := \<lambda>q. Response 200 (Some (JObj [(''properties'', JArr
              [JObj [(''name'', JStr ''low''), (''overall_rating'', JInt 3), (''gps_coordinates'', JNull)]])]))\<rparr>)
           [(''destination'', JStr ''Paris''), (''minRating'', JInt 4)]])"
  by (simp add: search_hotels_live_def search_body_def fetch_def example_env_def str_exc_def
      dict_get_def default_date_def process_property_def log_raw_images_def build_hotel_def)

subsection \<open>The task store\<close>

lemma set_canceled_new_task:
  "set_canceled (new_task tid st result) = Inr (new_task tid (JStr ''canceled'') result)"
  by (simp add: set_canceled_def new_task_def)

lemma lookup_task_Some:
  "lookup_task tasks v = Inr (Some (s, t)) \<Longrightarrow> v = JStr s \<and> tasks s = Some t"
  by (cases v) (auto split: option.splits)

lemma tasks_get_store: "fst (snd (tasks_get tasks rid ps)) = tasks"
  by (simp add: tasks_get_def split: sum.splits option.splits prod.splits)

lemma stored_ok_step:
  assumes "stored_ok tasks returned"
  shows "stored_ok (fst (snd (handle_a2a env tasks body)))
       (case skill_return env body of
          None \<Rightarrow> returned
        | Some result \<Rightarrow> returned(uuid4 env \<mapsto> result))"
proof (cases "parse_body body")
  case (Inl e)
  with assms show ?thesis by (simp add: handle_a2a_def skill_return_def)
next
  case (Inr rq)
  consider (send) "rpc_method rq = ''tasks/send''" | (get) "rpc_method rq = ''tasks/get''"
    | (cancel) "rpc_method rq = ''tasks/cancel''"
    | (other) "rpc_method rq \<noteq> ''tasks/send''" "rpc_method rq \<noteq> ''tasks/get''" "rpc_method rq \<noteq> ''tasks/cancel''"
    by blast
  then show ?thesis
  proof cases
    case send
    show ?thesis
    proof (cases "run_skill env (request_params rq)")
      case (Inl e)
      with Inr send assms show ?thesis
        by (simp add: handle_a2a_def skill_return_def tasks_send_def)
    next
      case (Inr rc)
      obtain result calls where rc: "rc = (result, calls)" by (cases rc)
      with Inr \<open>parse_body body = Inr rq\<close> send assms show ?thesis
        by (auto simp: handle_a2a_def skill_return_def tasks_send_def stored_ok_def Let_def)
    qed
  next
    case get
    with Inr assms show ?thesis
      by (simp add: handle_a2a_def skill_return_def tasks_get_store Let_def)
  next
    case cancel
    have sr: "skill_return env body = None" using Inr cancel by (simp add: skill_return_def)
    show ?thesis
    proof (cases "lookup_task tasks (dict_get (request_params rq) ''id'' JNull)")
      case (Inl e)
      with Inr cancel assms sr show ?thesis by (simp add: handle_a2a_def tasks_cancel_def)
    next
      case (Inr found)
      show ?thesis
      proof (cases found)
        case None
        with Inr \<open>parse_body body = Inr rq\<close> cancel assms sr show ?thesis
          by (simp add: handle_a2a_def tasks_cancel_def)
      next
        case (Some st)
        obtain s t where st: "st = (s, t)" by (cases st)
        from lookup_task_Some Inr Some st have ts: "tasks s = Some t" by blast
        with assms obtain state result where r: "returned s = Some result" "t = new_task s (JStr state) result"
          unfolding stored_ok_def by blast
        have "fst (snd (handle_a2a env tasks body)) =
             tasks(s \<mapsto> new_task s (JStr ''canceled'') result)"
          using \<open>parse_body body = Inr rq\<close> cancel Inr Some st r
          by (simp add: handle_a2a_def tasks_cancel_def set_canceled_new_task)
        with assms sr r show ?thesis by (auto simp: stored_ok_def)
      qed
    qed
  next
    case other
    with Inr assms show ?thesis by (simp add: handle_a2a_def skill_return_def)
  qed
qed

lemma reachable_stored_ok: "reachable tasks returned \<Longrightarrow> stored_ok tasks returned"
proof (induction rule: reachable.induct)
  case start
  show ?case by (simp add: stored_ok_def)
next
  case (request tasks returned env body)
  then show ?case by (simp add: stored_ok_step)
qed

lemma parse_unknown_skill_request:
  "parse_body (Some unknown_skill_request) =
     Inr \<lparr>rpc_jsonrpc = ''2.0'', rpc_id = JInt 1, rpc_method = ''tasks/send'',
          rpc_params = Some [(''skillId'', JStr ''x'')]\<rparr>"
  by (simp add: parse_body_def unknown_skill_request_def validate_request_def validate_params_def dict_get_def)

lemma parse_cancel_request:
  "parse_body (Some cancel_request) =
     Inr \<lparr>rpc_jsonrpc = ''2.0'', rpc_id = JInt 2, rpc_method = ''tasks/cancel'',
          rpc_params = Some [(''id'', JStr ''id-1'')]\<rparr>"
  by (simp add: parse_body_def cancel_request_def validate_request_def validate_params_def dict_get_def)

lemma run_unknown_skill:
  "run_skill example_env [(''skillId'', JStr ''x'')] = Inr (unknown_skill_result, [])"
  by (simp add: run_skill_def task_params_of_def execute_skill_def dict_get_def unknown_skill_result_def)

lemma uuid4_example_env: "uuid4 example_env = ''id-1''"
  by (simp add: example_env_def)

lemma reachable_one_task:
  "reachable (Map.empty(''id-1'' \<mapsto> new_task ''id-1'' (JStr ''completed'') unknown_skill_result))
             (Map.empty(''id-1'' \<mapsto> unknown_skill_result))"
  using reachable.request [OF reachable.start, of example_env "Some unknown_skill_request"]
  by (simp add: handle_a2a_def skill_return_def parse_unknown_skill_request request_params_def
      tasks_send_def run_unknown_skill uuid4_example_env Let_def)

lemma reachable_canceled_task:
  "reachable (Map.empty(''id-1'' \<mapsto> new_task ''id-1'' (JStr ''canceled'') unknown_skill_result))
             (Map.empty(''id-1'' \<mapsto> unknown_skill_result))"
  using reachable.request [OF reachable_one_task, of example_env "Some cancel_request"]
  by (simp add: handle_a2a_def skill_return_def parse_cancel_request request_params_def
      tasks_cancel_def dict_get_def set_canceled_new_task)

lemma has_nonfinite_new_task [simp]:
  "has_nonfinite (new_task tid (JStr st) result) = has_nonfinite result"
  by (simp add: new_task_def)

lemma has_nonfinite_response [simp]:
  "has_nonfinite (create_json_rpc_response request_id result) =
     (has_nonfinite request_id \<or> has_nonfinite result)"
  by (simp add: create_json_rpc_response_def)



text \<open>
  Claim C8. In every task store the server can reach, a stored task has the state
  \<^verbatim>\<open>completed\<close> or \<^verbatim>\<open>canceled\<close>, and exactly one artifact with exactly one part, of type
  \<^verbatim>\<open>data\<close>, whose data is the value the skill returned when the task under this id was
  created (\<open>returned tid\<close>), unchanged.
\<close>

theorem stored_tasks_invariant:
  assumes "reachable tasks returned" and "tasks tid = Some t"
  shows "\<exists>st result. returned tid = Some result \<and> (st = ''completed'' \<or> st = ''canceled'') \<and>
     t = JObj [(''id'', JStr tid),
               (''status'', JObj [(''state'', JStr st)]),
               (''artifacts'', JArr [JObj [(''parts'', JArr
                  [JObj [(''type'', JStr ''data''),
                         (''data'', result),
                         (''mimeType'', JStr ''application/json'')]])]])]"
  using reachable_stored_ok [OF assms(1)] assms(2) unfolding stored_ok_def new_task_def by blast

text \<open>The store after a send and a cancel of the task it created.\<close>

theorem stored_tasks_invariant_witness:
  "reachable (Map.empty(''id-1'' \<mapsto> new_task ''id-1'' (JStr ''canceled'') unknown_skill_result))
             (Map.empty(''id-1'' \<mapsto> unknown_skill_result))
   \<and> (Map.empty(''id-1'' \<mapsto> new_task ''id-1'' (JStr ''canceled'') unknown_skill_result)) ''id-1''
       = Some (new_task ''id-1'' (JStr ''canceled'') unknown_skill_result)
   \<and> (Map.empty(''id-1'' \<mapsto> unknown_skill_result)) ''id-1'' = Some unknown_skill_result
   \<and> new_task ''id-1'' (JStr ''canceled'') unknown_skill_result =
       JObj [(''id'', JStr ''id-1''),
             (''status'', JObj [(''state'', JStr ''canceled'')]),
             (''artifacts'', JArr [JObj [(''parts'', JArr
                [JObj [(''type'', JStr ''data''),
                       (''data'', unknown_skill_result),
                       (''mimeType'', JStr ''application/json'')]])]])]"
  using stored_tasks_invariant [OF reachable_canceled_task, of "''id-1''"
      "new_task ''id-1'' (JStr ''canceled'') unknown_skill_result"] reachable_canceled_task
  by (simp add: new_task_def)




subsection \<open>The status of the responses\<close>

lemma JSONResponse_error:
  "JSONResponse (create_json_rpc_error request_id code message JNull) =
     (if has_nonfinite request_id then Inl ValueError
      else Inr \<lparr>status_code = 200, content =
             JObj [(''jsonrpc'', JStr ''2.0''), (''id'', request_id),
                   (''error'', JObj [(''code'', JInt code), (''message'', JStr message)])]\<rparr>)"
  by (simp add: JSONResponse_def create_json_rpc_error_def json_dumps_def)

text \<open>
  The error responses the handler builds, each with status 200 and the store untouched:
  -32700 for a body that does not parse or validate, and, when the JSON-RPC id of the
  request holds no NaN or Infinity, -32601 for an unknown method and -32000 for a
  \<^verbatim>\<open>tasks/get\<close> or \<^verbatim>\<open>tasks/cancel\<close> whose id is in no stored task.
\<close>

lemma error_envelopes:
  "(parse_body body = Inl e \<longrightarrow>
      handle_a2a env tasks body =
        (Inr \<lparr>status_code = 200, content =
           JObj [(''jsonrpc'', JStr ''2.0''), (''id'', JNull),
                 (''error'', JObj [(''code'', JInt (- 32700)),
                                  (''message'', JStr (''Parse error: '' @ str_exc env e))])]\<rparr>,
         tasks, [])) \<and>
   (parse_body body = Inr rq \<and> \<not> has_nonfinite (rpc_id rq) \<and> rpc_method rq \<noteq> ''tasks/send'' \<and>
    rpc_method rq \<noteq> ''tasks/get'' \<and> rpc_method rq \<noteq> ''tasks/cancel'' \<longrightarrow>
      handle_a2a env tasks body =
        (Inr \<lparr>status_code = 200, content =
           JObj [(''jsonrpc'', JStr ''2.0''), (''id'', rpc_id rq),
                 (''error'', JObj [(''code'', JInt (- 32601)),
                                  (''message'', JStr (''Method not found: '' @ rpc_method rq))])]\<rparr>,
         tasks, [])) \<and>
   (parse_body body = Inr rq \<and> \<not> has_nonfinite (rpc_id rq) \<and>
    (rpc_method rq = ''tasks/get'' \<or> rpc_method rq = ''tasks/cancel'') \<and>
    lookup_task tasks (dict_get (request_params rq) ''id'' JNull) = Inr None \<longrightarrow>
      handle_a2a env tasks body =
        (Inr \<lparr>status_code = 200, content =
           JObj [(''jsonrpc'', JStr ''2.0''), (''id'', rpc_id rq),
                 (''error'', JObj [(''code'', JInt (- 32000)),
                                  (''message'', JStr ''Task not found'')])]\<rparr>,
         tasks, []))"
  by (auto simp: handle_a2a_def tasks_get_def tasks_cancel_def JSONResponse_error)

text \<open>
  Claim C9. A \<^verbatim>\<open>tasks/get\<close> for a string id that is in no stored task gets the error
  -32000 with status 200. The same well-formed request with a task id that is a list
  gets no JSON-RPC envelope: \<^verbatim>\<open>task_id in tasks\<close> (line 505) raises \<^verbatim>\<open>TypeError\<close>, a list
  being unhashable, nothing catches it after the parsing, the exception leaves the
  handler and the status is 500.
\<close>

theorem unhashable_task_id_raises:
  "handle_a2a example_env Map.empty
     (Some (JObj [(''jsonrpc'', JStr ''2.0''), (''id'', JInt 1), (''method'', JStr ''tasks/get''),
                  (''params'', JObj [(''id'', JStr ''no-such-task'')])])) =
     (Inr \<lparr>status_code = 200, content =
        JObj [(''jsonrpc'', JStr ''2.0''), (''id'', JInt 1),
              (''error'', JObj [(''code'', JInt (- 32000)), (''message'', JStr ''Task not found'')])]\<rparr>,
      Map.empty, [])
   \<and> handle_a2a example_env Map.empty
     (Some (JObj [(''jsonrpc'', JStr ''2.0''), (''id'', JInt 1), (''method'', JStr ''tasks/get''),
                  (''params'', JObj [(''id'', JArr [])])])) = (Inl TypeError, Map.empty, [])
   \<and> http_status (fst (handle_a2a example_env Map.empty
     (Some (JObj [(''jsonrpc'', JStr ''2.0''), (''id'', JInt 1), (''method'', JStr ''tasks/get''),
                  (''params'', JObj [(''id'', JArr [])])])))) = 500"
  by (simp add: handle_a2a_def parse_body_def validate_request_def validate_params_def dict_get_def
      request_params_def tasks_get_def http_status_def JSONResponse_error)

text \<open>
  An unknown method under the JSON-RPC id \<^verbatim>\<open>1e999\<close>: the rendering of the error response
  raises \<^verbatim>\<open>ValueError\<close> (line 529), and the status is 500 as well.
\<close>

lemma infinite_request_id_raises:
  "handle_a2a example_env Map.empty
     (Some (JObj [(''jsonrpc'', JStr ''2.0''), (''id'', JNonFinite PosInfinity),
                  (''method'', JStr ''tasks/list'')])) = (Inl ValueError, Map.empty, [])
   \<and> http_status (fst (handle_a2a example_env Map.empty
     (Some (JObj [(''jsonrpc'', JStr ''2.0''), (''id'', JNonFinite PosInfinity),
                  (''method'', JStr ''tasks/list'')])))) = 500"
  by (simp add: handle_a2a_def parse_body_def validate_request_def validate_params_def dict_get_def
      request_params_def http_status_def JSONResponse_error)

subsection \<open>The skill parameters of a tasks/send\<close>

lemma first_data_part_skip:
  "list_all not_data pre \<Longrightarrow> first_data_part (pre @ rest) = first_data_part rest"
proof (induction pre)
  case Nil
  then show ?case by simp
next
  case (Cons p pre)
  then obtain d where "p = JObj d" "dict_get d ''type'' JNull \<noteq> JStr ''data''"
    by (cases p) auto
  with Cons show ?case by simp
qed

lemma first_data_part_none: "list_all not_data parts \<Longrightarrow> first_data_part parts = Inr (JObj [])"
  using first_data_part_skip [of parts "[]"] by simp

lemma search_without_destination:
  "SERPAPI_API_KEY env \<noteq> [] \<Longrightarrow>
   \<exists>result. search_hotels_live env (JObj []) = Inr (result, [search_params env []])"
  by (simp add: search_hotels_live_def)

lemma parse_no_parts_request:
  "parse_body (Some no_parts_request) =
     Inr \<lparr>rpc_jsonrpc = ''2.0'', rpc_id = JInt 4, rpc_method = ''tasks/send'',
          rpc_params = Some [(''skillId'', JStr ''search-hotels-live''), (''message'', JObj [])]\<rparr>"
  by (simp add: parse_body_def no_parts_request_def validate_request_def validate_params_def dict_get_def)

lemma no_parts_search:
  "handle_a2a example_env Map.empty (Some no_parts_request) =
     (Inr \<lparr>status_code = 200, content =
        create_json_rpc_response (JInt 4)
          (new_task ''id-1'' (JStr ''completed'')
             (JObj [(''success'', JBool False),
                    (''error'', JStr ''Failed to search hotels: error''),
                    (''hotels'', JArr [])]))\<rparr>,
      Map.empty(''id-1'' \<mapsto> new_task ''id-1'' (JStr ''completed'')
             (JObj [(''success'', JBool False),
                    (''error'', JStr ''Failed to search hotels: error''),
                    (''hotels'', JArr [])])),
      [search_params example_env []])"
  by (simp add: handle_a2a_def parse_no_parts_request request_params_def tasks_send_def run_skill_def
      task_params_of_def dict_get_def execute_skill_def search_hotels_live_def search_body_def fetch_def
      Let_def JSONResponse_def json_dumps_def uuid4_example_env)
     (simp add: example_env_def str_exc_def)

text \<open>
  Claim C10, as the code has it. The message of the request being an object: when its
  parts are \<open>pre\<close>, then a part of type \<^verbatim>\<open>data\<close>, then \<open>post\<close>, and the parts of \<open>pre\<close> are
  objects of other types, the skill parameters are that part's \<^verbatim>\<open>data\<close> (\<^verbatim>\<open>{}\<close> when it has
  none), whatever \<open>post\<close> holds; when no part is of type \<^verbatim>\<open>data\<close> (or there are no parts),
  they are \<^verbatim>\<open>{}\<close>. For \<^verbatim>\<open>search-hotels-live\<close> with a credential configured, such a request is
  not rejected: one upstream query is sent, with \<^verbatim>\<open>q\<close> the empty string, and the task is
  created and stored; it is answered with status 200 by the JSON-RPC result around the
  task, unless the JSON-RPC id or the skill's result holds a NaN or an Infinity, on
  which the rendering of the response raises. (With no credential the skill stops
  before the query.)
\<close>

theorem first_data_part_supplies_parameters:
  assumes "dict_get ps ''message'' (JObj []) = JObj m"
  shows "(dict_get m ''parts'' (JArr []) = JArr (pre @ JObj part # post) \<and> list_all not_data pre \<and>
          dict_get part ''type'' JNull = JStr ''data'' \<longrightarrow>
            task_params_of ps = Inr (dict_get part ''data'' (JObj []))) \<and>
         (dict_get m ''parts'' (JArr []) = JArr parts \<and> list_all not_data parts \<longrightarrow>
            task_params_of ps = Inr (JObj [])) \<and>
         (dict_get m ''parts'' (JArr []) = JArr parts \<and> list_all not_data parts \<and>
          SERPAPI_API_KEY env \<noteq> [] \<and> parse_body body = Inr rq \<and> rpc_method rq = ''tasks/send'' \<and>
          request_params rq = ps \<and> dict_get ps ''skillId'' (JStr '''') = JStr ''search-hotels-live'' \<longrightarrow>
            map_of (search_params env []) ''q'' = Some (JStr '''') \<and>
            (\<exists>result. handle_a2a env tasks body =
               (if has_nonfinite (rpc_id rq) \<or> has_nonfinite result then Inl ValueError
                else Inr \<lparr>status_code = 200, content =
                       create_json_rpc_response (rpc_id rq)
                         (new_task (uuid4 env) (JStr ''completed'') result)\<rparr>,
                tasks(uuid4 env \<mapsto> new_task (uuid4 env) (JStr ''completed'') result),
                [search_params env []])))"
proof (intro conjI impI)
  assume "dict_get m ''parts'' (JArr []) = JArr (pre @ JObj part # post) \<and> list_all not_data pre \<and>
          dict_get part ''type'' JNull = JStr ''data''"
  with assms show "task_params_of ps = Inr (dict_get part ''data'' (JObj []))"
    by (simp add: task_params_of_def first_data_part_skip)
next
  assume "dict_get m ''parts'' (JArr []) = JArr parts \<and> list_all not_data parts"
  with assms show "task_params_of ps = Inr (JObj [])"
    by (simp add: task_params_of_def first_data_part_none)
next
  assume a: "dict_get m ''parts'' (JArr []) = JArr parts \<and> list_all not_data parts \<and>
          SERPAPI_API_KEY env \<noteq> [] \<and> parse_body body = Inr rq \<and> rpc_method rq = ''tasks/send'' \<and>
          request_params rq = ps \<and> dict_get ps ''skillId'' (JStr '''') = JStr ''search-hotels-live''"
  show "map_of (search_params env []) ''q'' = Some (JStr '''')"
    by (simp add: search_params_def add_price_filter_def dict_get_def)
next
  assume a: "dict_get m ''parts'' (JArr []) = JArr parts \<and> list_all not_data parts \<and>
          SERPAPI_API_KEY env \<noteq> [] \<and> parse_body body = Inr rq \<and> rpc_method rq = ''tasks/send'' \<and>
          request_params rq = ps \<and> dict_get ps ''skillId'' (JStr '''') = JStr ''search-hotels-live''"
  with assms have tp: "task_params_of ps = Inr (JObj [])"
    by (simp add: task_params_of_def first_data_part_none)
  from a search_without_destination obtain result where
    r: "search_hotels_live env (JObj []) = Inr (result, [search_params env []])" by blast
  have "handle_a2a env tasks body =
               (if has_nonfinite (rpc_id rq) \<or> has_nonfinite result then Inl ValueError
                else Inr \<lparr>status_code = 200, content =
                       create_json_rpc_response (rpc_id rq)
                         (new_task (uuid4 env) (JStr ''completed'') result)\<rparr>,
                tasks(uuid4 env \<mapsto> new_task (uuid4 env) (JStr ''completed'') result),
                [search_params env []])"
    using a tp r
    by (simp add: handle_a2a_def tasks_send_def run_skill_def execute_skill_def Let_def
        JSONResponse_def json_dumps_def)
  then show "\<exists>result. handle_a2a env tasks body =
               (if has_nonfinite (rpc_id rq) \<or> has_nonfinite result then Inl ValueError
                else Inr \<lparr>status_code = 200, content =
                       create_json_rpc_response (rpc_id rq)
                         (new_task (uuid4 env) (JStr ''completed'') result)\<rparr>,
                tasks(uuid4 env \<mapsto> new_task (uuid4 env) (JStr ''completed'') result),
                [search_params env []])" by blast
qed

text \<open>
  A text part and two data parts: the first data part gives the parameters. A search
  with no parts: one query is sent (it times out), and the task holds the failure.
\<close>

theorem first_data_part_supplies_parameters_witness:
  "task_params_of
     [(''skillId'', JStr ''search-hotels-live''),
      (''message'', JObj [(''parts'', JArr
         [JObj [(''type'', JStr ''text''), (''text'', JStr ''hotels in Paris'')],
          JObj [(''type'', JStr ''data''), (''data'', JObj [(''destination'', JStr ''Paris'')])],
          JObj [(''type'', JStr ''data''), (''data'', JObj [(''destination'', JStr ''Rome'')])]])])]
     = Inr (JObj [(''destination'', JStr ''Paris'')])
   \<and> SERPAPI_API_KEY example_env \<noteq> []
   \<and> map_of (search_params example_env []) ''q'' = Some (JStr '''')
   \<and> handle_a2a example_env Map.empty (Some no_parts_request) =
       (Inr \<lparr>status_code = 200, content =
          create_json_rpc_response (JInt 4)
            (new_task ''id-1'' (JStr ''completed'')
               (JObj [(''success'', JBool False),
                      (''error'', JStr ''Failed to search hotels: error''),
                      (''hotels'', JArr [])]))\<rparr>,
        Map.empty(''id-1'' \<mapsto> new_task ''id-1'' (JStr ''completed'')
               (JObj [(''success'', JBool False),
                      (''error'', JStr ''Failed to search hotels: error''),
                      (''hotels'', JArr [])])),
        [search_params example_env []])"
proof -
  have first: "task_params_of
     [(''skillId'', JStr ''search-hotels-live''),
      (''message'', JObj [(''parts'', JArr
         [JObj [(''type'', JStr ''text''), (''text'', JStr ''hotels in Paris'')],
          JObj [(''type'', JStr ''data''), (''data'', JObj [(''destination'', JStr ''Paris'')])],
          JObj [(''type'', JStr ''data''), (''data'', JObj [(''destination'', JStr ''Rome'')])]])])]
     = Inr (JObj [(''destination'', JStr ''Paris'')])"
    using first_data_part_supplies_parameters
      [where ps = "[(''skillId'', JStr ''search-hotels-live''),
          (''message'', JObj [(''parts'', JArr
             [JObj [(''type'', JStr ''text''), (''text'', JStr ''hotels in Paris'')],
              JObj [(''type'', JStr ''data''), (''data'', JObj [(''destination'', JStr ''Paris'')])],
              JObj [(''type'', JStr ''data''), (''data'', JObj [(''destination'', JStr ''Rome'')])]])])]"
        and m = "[(''parts'', JArr
             [JObj [(''type'', JStr ''text''), (''text'', JStr ''hotels in Paris'')],
              JObj [(''type'', JStr ''data''), (''data'', JObj [(''destination'', JStr ''Paris'')])],
              JObj [(''type'', JStr ''data''), (''data'', JObj [(''destination'', JStr ''Rome'')])]])]"
        and pre = "[JObj [(''type'', JStr ''text''), (''text'', JStr ''hotels in Paris'')]]"
        and part = "[(''type'', JStr ''data''), (''data'', JObj [(''destination'', JStr ''Paris'')])]"
        and post = "[JObj [(''type'', JStr ''data''), (''data'', JObj [(''destination'', JStr ''Rome'')])]]"
        and parts = "[]" and env = example_env and body = None and tasks = Map.empty
        and rq = "\<lparr>rpc_jsonrpc = [], rpc_id = JNull, rpc_method = [], rpc_params = None\<rparr>"]
    by (simp add: dict_get_def)
  have key: "SERPAPI_API_KEY example_env \<noteq> []"
    by (simp add: example_env_def)
  have none: "map_of (search_params example_env []) ''q'' = Some (JStr '''')"
    using first_data_part_supplies_parameters
      [where ps = "[(''skillId'', JStr ''search-hotels-live''), (''message'', JObj [])]"
        and m = "[]" and pre = "[]" and part = "[]" and post = "[]"
        and parts = "[]" and env = example_env and body = "Some no_parts_request" and tasks = Map.empty
        and rq = "\<lparr>rpc_jsonrpc = ''2.0'', rpc_id = JInt 4, rpc_method = ''tasks/send'',
          rpc_params = Some [(''skillId'', JStr ''search-hotels-live''), (''message'', JObj [])]\<rparr>"]
      key
    by (simp add: dict_get_def parse_no_parts_request request_params_def uuid4_example_env)
  from first key none no_parts_search show ?thesis by blast
qed

text \<open>
  The search with no parts and no credential configured: the task is created with the
  configuration error and no upstream query is attempted.
\<close>

theorem no_credential_no_query:
  "SERPAPI_API_KEY (example_env\<lparr>SERPAPI_API_KEY := []\<rparr>) = []
   \<and> handle_a2a (example_env\<lparr>SERPAPI_API_KEY := []\<rparr>) Map.empty (Some no_parts_request) =
       (Inr \<lparr>status_code = 200, content =
          create_json_rpc_response (JInt 4)
            (new_task ''id-1'' (JStr ''completed'')
               (JObj [(''success'', JBool False),
                      (''error'', JStr ''SerpAPI API key not configured. Please set SERPAPI_API_KEY environment variable.''),
                      (''hotels'', JArr [])]))\<rparr>,
        Map.empty(''id-1'' \<mapsto> new_task ''id-1'' (JStr ''completed'')
             (JObj [(''success'', JBool False),
                    (''error'', JStr ''SerpAPI API key not configured. Please set SERPAPI_API_KEY environment variable.''),
                    (''hotels'', JArr [])])),
        [])"
  by (simp add: handle_a2a_def parse_no_parts_request request_params_def tasks_send_def run_skill_def
      task_params_of_def dict_get_def execute_skill_def search_hotels_live_def Let_def example_env_def
      JSONResponse_def json_dumps_def)

end
